theory Spec2Isabelle
  imports Main "HOL-Library.Char_ord" "HOL-Library.List_Lexorder"
begin

section \<open>TicketBari server: data model\<close>

text \<open>
  A shallow embedding of the request handlers of \<^verbatim>\<open>src/index.js\<close>. The four MongoDB
  collections are lists of documents in insertion order; a handler is a function from
  the store to a response and the store it leaves behind. Every handler runs to its end
  before the next one starts.

  Conventions of the embedding:
  \<^item> an \<^verbatim>\<open>ObjectId\<close> is a natural number; a request parameter that
    \<^verbatim>\<open>ObjectId.isValid\<close> refuses is \<open>None\<close>;
  \<^item> JavaScript numbers (price, quantity, amount) are the values of a type \<open>'n\<close>. The
    handlers use three operations on them: JavaScript's \<^verbatim>\<open>*\<close> and unary \<^verbatim>\<open>-\<close>, and
    the addition of MongoDB's \<^verbatim>\<open>$inc\<close>. They are the \<open>*\<close>, \<open>-\<close> and \<open>+\<close> of
    \<open>'n\<close>, of which nothing is assumed: no law of arithmetic is used, so what is proved
    holds of IEEE doubles, whole or fractional, as it holds of the integers of the
    examples; \<^verbatim>\<open>!==\<close> is inequality of values;
  \<^item> a field a request body may leave out is an \<open>option\<close>;
  \<^item> \<^verbatim>\<open>new Date().toISOString()\<close> and the two random generators are arguments
    (\<open>now\<close>, \<open>genSeat\<close>, \<open>genRef\<close>);
  \<^item> the display-only fields of a booking (image, transport type, arrival time) are
    left out.
\<close>

type_synonym oid = nat

record 'n ticket =
  t_id :: oid
  t_vendorEmail :: string
  t_title :: string
  t_from :: string
  t_to :: string
  t_departureDate :: string
  t_departureTime :: string
  t_price :: 'n
  t_quantity :: 'n
  t_verificationStatus :: string
  t_isAdvertised :: bool
  t_isHidden :: "bool option"
  t_createdAt :: string

record user =
  u_id :: oid
  u_email :: string
  u_role :: string
  u_created_at :: string
  u_last_loggedIn :: string
  u_isFraud :: bool
  u_name :: "string option"
  u_image :: "string option"
  u_phone :: "string option"
  u_location :: "string option"
  u_updated_at :: "string option"

record 'n booking =
  b_id :: oid
  b_ticketId :: oid
  b_userEmail :: string
  b_quantity :: 'n
  b_unitPrice :: 'n
  b_totalPrice :: 'n
  b_ticketTitle :: string
  b_from :: string
  b_to :: string
  b_departureDate :: string
  b_departureTime :: string
  b_seatNumber :: string
  b_bookingReference :: string
  b_status :: string
  b_bookingStatus :: string
  b_transactionId :: "string option"
  b_paymentMethod :: "string option"
  b_paymentDate :: "string option"
  b_paidAt :: "string option"
  b_cancelledAt :: "string option"
  b_createdAt :: string
  b_updatedAt :: string

record 'n payment =
  p_id :: oid
  p_userEmail :: string
  p_bookingId :: oid
  p_transactionId :: "string option"
  p_amount :: 'n
  p_ticketTitle :: string
  p_from :: string
  p_to :: string
  p_departureDate :: string
  p_departureTime :: string
  p_seatNumber :: string
  p_bookingReference :: string
  p_paymentMethod :: string
  p_paymentDate :: string
  p_status :: string
  p_createdAt :: string

record 'n store =
  tickets :: "'n ticket list"
  users :: "user list"
  bookings :: "'n booking list"
  payments :: "'n payment list"
  nextId :: oid

text \<open>Response bodies, one constructor per shape the handlers send.\<close>

datatype 'n body =
    Message string
  | RoleMessage string "string option"
  | Success
  | SuccessMessage string
  | InsertResult oid
  | UpdateResult nat "oid option"
  | DeleteResult nat
  | Toggled string bool
  | TicketDoc "'n ticket"
  | TicketDocs "'n ticket list"
  | UserDoc user

type_synonym 'n response = "nat \<times> 'n body"

section \<open>Store primitives\<close>

text \<open>\<^verbatim>\<open>a || b\<close> on a string that may be missing: missing and empty are falsy.\<close>

definition truthy :: "string option \<Rightarrow> bool" where
  "truthy v = (case v of None \<Rightarrow> False | Some s \<Rightarrow> s \<noteq> [])"

definition or_else :: "string option \<Rightarrow> string \<Rightarrow> string" where
  "or_else v d = (case v of None \<Rightarrow> d | Some s \<Rightarrow> if s = [] then d else s)"

text \<open>\<^verbatim>\<open>updateOne\<close>: the first document matching the query is rewritten.\<close>

fun updateOne :: "('a \<Rightarrow> bool) \<Rightarrow> ('a \<Rightarrow> 'a) \<Rightarrow> 'a list \<Rightarrow> 'a list" where
  "updateOne q f [] = []"
| "updateOne q f (d # ds) = (if q d then f d # ds else d # updateOne q f ds)"

definition matchedCount :: "('a \<Rightarrow> bool) \<Rightarrow> 'a list \<Rightarrow> nat" where
  "matchedCount q ds = (if list_ex q ds then 1 else 0)"

fun deleteOne :: "('a \<Rightarrow> bool) \<Rightarrow> 'a list \<Rightarrow> 'a list" where
  "deleteOne q [] = []"
| "deleteOne q (d # ds) = (if q d then ds else d # deleteOne q ds)"

text \<open>
  The unique index of lines 56-64: key \<open>(ticketId, seatNumber)\<close>, restricted by the
  partial filter to documents whose \<open>bookingStatus\<close> is pending or confirmed. The
  database refuses, with error code 11000, an insert or an update after which two indexed
  documents would share a key.
\<close>

datatype store_error = MongoError nat

definition E11000 :: store_error where
  "E11000 = MongoError 11000"

definition indexed :: "'n booking \<Rightarrow> bool" where
  "indexed b = (b_bookingStatus b = ''pending'' \<or> b_bookingStatus b = ''confirmed'')"

definition index_key :: "'n booking \<Rightarrow> oid \<times> string" where
  "index_key b = (b_ticketId b, b_seatNumber b)"

definition index_keys :: "'n booking list \<Rightarrow> (oid \<times> string) list" where
  "index_keys bs = map index_key (filter indexed bs)"

definition duplicate_key :: "'n booking \<Rightarrow> 'n booking list \<Rightarrow> bool" where
  "duplicate_key b bs = (indexed b \<and> index_key b \<in> set (index_keys bs))"

definition seat_index_ok :: "'n booking list \<Rightarrow> bool" where
  "seat_index_ok bs = distinct (index_keys bs)"

definition insertOne_booking :: "'n booking \<Rightarrow> 'n booking list \<Rightarrow> store_error + 'n booking list" where
  "insertOne_booking b bs = (if duplicate_key b bs then Inl E11000 else Inr (bs @ [b]))"

fun updateOne_booking ::
  "('n booking \<Rightarrow> bool) \<Rightarrow> ('n booking \<Rightarrow> 'n booking) \<Rightarrow> 'n booking list \<Rightarrow> 'n booking list
     \<Rightarrow> store_error + 'n booking list" where
  "updateOne_booking q f pre [] = Inr pre"
| "updateOne_booking q f pre (b # post) =
     (if q b then
        (if duplicate_key (f b) (pre @ post) then Inl E11000 else Inr (pre @ f b # post))
      else updateOne_booking q f (pre @ [b]) post)"

section \<open>Middleware\<close>

text \<open>
  \<^verbatim>\<open>verifyJWT\<close> hands the handler the email of the verified token; a request whose
  token is missing or refused carries \<open>None\<close> and is answered 401 by the dispatcher
  below. The role middlewares read the role from the user collection.
\<close>

definition unauthorized :: "'n response" where
  "unauthorized = (401, Message ''Unauthorized Access!'')"

definition role_of :: "string \<Rightarrow> 'n store \<Rightarrow> string option" where
  "role_of email s = map_option u_role (find (\<lambda>u. u_email u = email) (users s))"

definition verifyADMIN :: "string \<Rightarrow> 'n store \<Rightarrow> 'n response option" where
  "verifyADMIN email s =
     (if role_of email s \<noteq> Some ''admin''
      then Some (403, RoleMessage ''Admin only Actions!'' (role_of email s)) else None)"

definition verifyVENDOR :: "string \<Rightarrow> 'n store \<Rightarrow> 'n response option" where
  "verifyVENDOR email s =
     (if role_of email s \<noteq> Some ''vendor''
      then Some (403, RoleMessage ''Vendor only Actions!'' (role_of email s)) else None)"

section \<open>User routes\<close>

record userData =
  ud_email :: "string option"
  ud_role :: "string option"
  ud_created_at :: "string option"
  ud_name :: "string option"
  ud_image :: "string option"

text \<open>\<^verbatim>\<open>$set: userData\<close>: every field the body holds after the handler's assignments.\<close>

definition set_userData ::
  "string \<Rightarrow> string \<Rightarrow> string \<Rightarrow> string \<Rightarrow> userData \<Rightarrow> user \<Rightarrow> user" where
  "set_userData email role created_at last_loggedIn userData u =
     u\<lparr>u_email := email, u_role := role, u_created_at := created_at,
       u_last_loggedIn := last_loggedIn,
       u_name := (case ud_name userData of None \<Rightarrow> u_name u | Some n \<Rightarrow> Some n),
       u_image := (case ud_image userData of None \<Rightarrow> u_image u | Some i \<Rightarrow> Some i)\<rparr>"

definition new_user :: "oid \<Rightarrow> string \<Rightarrow> user" where
  "new_user i email =
     \<lparr>u_id = i, u_email = email, u_role = [], u_created_at = [], u_last_loggedIn = [],
      u_isFraud = False, u_name = None, u_image = None, u_phone = None, u_location = None,
      u_updated_at = None\<rparr>"

text \<open>POST /user (lines 127-151).\<close>

definition postUser :: "userData \<Rightarrow> string \<Rightarrow> 'n store \<Rightarrow> 'n response \<times> 'n store" where
  "postUser userData now s =
     (if \<not> truthy (ud_email userData) then ((400, Message ''Email required''), s)
      else
        let email = or_else (ud_email userData) [];
            created_at = or_else (ud_created_at userData) now;
            last_loggedIn = now;
            role = or_else (ud_role userData) ''customer'';
            query = (\<lambda>u. u_email u = email)
        in (case find query (users s) of
              Some existingUser \<Rightarrow>
                ((200, UpdateResult 1 None),
                 s\<lparr>users := updateOne query
                    (set_userData email (u_role existingUser) created_at last_loggedIn userData)
                    (users s)\<rparr>)
            | None \<Rightarrow>
                ((200, UpdateResult 0 (Some (nextId s))),
                 s\<lparr>users := users s @
                      [set_userData email role created_at last_loggedIn userData
                         (new_user (nextId s) email)],
                   nextId := Suc (nextId s)\<rparr>)))"

text \<open>
  PUT /user/profile (lines 194-253), after the upload middleware. \<open>file\<close> says whether
  an image came with the request. Strings are ASCII: \<^verbatim>\<open>trim\<close> and \<^verbatim>\<open>\s\<close> know the six
  ASCII white-space characters.
\<close>

definition is_space :: "char \<Rightarrow> bool" where
  "is_space c = (c = CHR '' '' \<or> c = CHR 0x09 \<or> c = CHR 0x0A \<or> c = CHR 0x0B
                 \<or> c = CHR 0x0C \<or> c = CHR 0x0D)"

definition trim :: "string \<Rightarrow> string" where
  "trim x = rev (dropWhile is_space (rev (dropWhile is_space x)))"

definition is_digit :: "char \<Rightarrow> bool" where
  "is_digit c = (c \<in> set ''0123456789'')"

definition phone_format :: "string \<Rightarrow> bool" where
  "phone_format p =
     (let r = (case p of [] \<Rightarrow> [] | c # cs \<Rightarrow> if c = CHR ''+'' then cs else p)
      in r \<noteq> [] \<and>
         list_all (\<lambda>c. is_digit c \<or> is_space c \<or> c = CHR ''-'' \<or> c = CHR ''('' \<or> c = CHR '')'') r)"

record profileData =
  pd_name :: "string option"
  pd_phone :: "string option"
  pd_location :: "string option"
  pd_imageURL :: "string option"

definition putUserProfile ::
  "string \<Rightarrow> profileData \<Rightarrow> bool \<Rightarrow> string \<Rightarrow> 'n store \<Rightarrow> 'n response \<times> 'n store" where
  "putUserProfile email pd file now s =
     (case pd_name pd of
        None \<Rightarrow> ((400, Message ''Name must be at least 2 characters''), s)
      | Some name \<Rightarrow>
          if name = [] \<or> length (trim name) < 2
          then ((400, Message ''Name must be at least 2 characters''), s)
          else if truthy (pd_phone pd) \<and> \<not> phone_format (or_else (pd_phone pd) [])
          then ((400, Message ''Invalid phone number format''), s)
          else
            let query = (\<lambda>u. u_email u = email);
                updateData = (\<lambda>u. u\<lparr>u_name := Some (trim name),
                   u_phone := Some (trim (or_else (pd_phone pd) [])),
                   u_location := Some (trim (or_else (pd_location pd) [])),
                   u_updated_at := Some now,
                   u_image := (if file then pd_imageURL pd else u_image u)\<rparr>)
            in (case find query (users s) of
                  None \<Rightarrow> ((404, Message ''User not found''), s)
                | Some u \<Rightarrow>
                    ((200, UserDoc (updateData u)),
                     s\<lparr>users := updateOne query updateData (users s)\<rparr>)))"

text \<open>PATCH /admin/users/:email/role (lines 894-917), after \<open>verifyADMIN\<close>.\<close>

definition roles :: "string list" where
  "roles = [''customer'', ''vendor'', ''admin'']"

definition adminSetRole :: "string \<Rightarrow> string \<Rightarrow> 'n store \<Rightarrow> 'n response \<times> 'n store" where
  "adminSetRole email role s =
     (if role \<notin> set roles
      then ((400, Message ''Invalid role''), s)
      else ((200, UpdateResult (matchedCount (\<lambda>u. u_email u = email) (users s)) None),
            s\<lparr>users := updateOne (\<lambda>u. u_email u = email) (\<lambda>u. u\<lparr>u_role := role\<rparr>) (users s)\<rparr>))"

text \<open>PATCH /admin/users/:email/fraud (lines 920-945), after \<open>verifyADMIN\<close>.\<close>

definition adminMarkFraud :: "string \<Rightarrow> 'n store \<Rightarrow> 'n response \<times> 'n store" where
  "adminMarkFraud email s =
     ((200, Success),
      s\<lparr>users := updateOne (\<lambda>u. u_email u = email) (\<lambda>u. u\<lparr>u_isFraud := True\<rparr>) (users s),
        tickets := map (\<lambda>t. if t_vendorEmail t = email then t\<lparr>t_isHidden := Some True\<rparr> else t)
                     (tickets s)\<rparr>)"

section \<open>Booking ledger\<close>

definition server_error :: "'n response" where
  "server_error = (500, Message ''Server error'')"

text \<open>
  POST /bookings (lines 256-343). The \<^verbatim>\<open>catch\<close> block answers 409 to error code 11000
  and 500 to any other error.
\<close>

definition bookings_catch :: "store_error \<Rightarrow> 'n response" where
  "bookings_catch e =
     (case e of MongoError code \<Rightarrow>
        if code = 11000
        then (409, Message ''Seat already booked. Please select another seat.'')
        else server_error)"

definition new_booking ::
  "oid \<Rightarrow> string \<Rightarrow> ('n::times) ticket \<Rightarrow> 'n \<Rightarrow> string \<Rightarrow> string \<Rightarrow> string \<Rightarrow> 'n booking" where
  "new_booking i email ticket quantity seat ref now =
     \<lparr>b_id = i, b_ticketId = t_id ticket, b_userEmail = email,
      b_quantity = quantity, b_unitPrice = t_price ticket,
      b_totalPrice = t_price ticket * quantity,
      b_ticketTitle = t_title ticket, b_from = t_from ticket, b_to = t_to ticket,
      b_departureDate = t_departureDate ticket, b_departureTime = t_departureTime ticket,
      b_seatNumber = seat, b_bookingReference = ref,
      b_status = ''pending'', b_bookingStatus = ''pending'',
      b_transactionId = None, b_paymentMethod = None, b_paymentDate = None,
      b_paidAt = None, b_cancelledAt = None, b_createdAt = now, b_updatedAt = now\<rparr>"

definition createBooking ::
  "string \<Rightarrow> oid option \<Rightarrow> ('n::times) \<Rightarrow> string option \<Rightarrow> string \<Rightarrow> string \<Rightarrow> string \<Rightarrow> 'n store
     \<Rightarrow> 'n response \<times> 'n store" where
  "createBooking email ticketId quantity seatNumber genSeat genRef now s =
     (case ticketId of
        None \<Rightarrow> ((400, Message ''Invalid ticket ID''), s)
      | Some tid \<Rightarrow>
          (case find (\<lambda>t. t_id t = tid) (tickets s) of
             None \<Rightarrow> ((404, Message ''Ticket not found''), s)
           | Some ticket \<Rightarrow>
               let bookingReference = genRef;
                   generatedSeatNumber = or_else seatNumber genSeat;
                   booking = new_booking (nextId s) email ticket quantity
                               generatedSeatNumber bookingReference now
               in (case insertOne_booking booking (bookings s) of
                     Inl error \<Rightarrow> (bookings_catch error, s)
                   | Inr bs \<Rightarrow>
                       ((201, InsertResult (nextId s)),
                        s\<lparr>bookings := bs, nextId := Suc (nextId s)\<rparr>))))"

text \<open>PATCH /bookings/:id/status (lines 374-414).\<close>

definition statusMap :: "(string \<times> string) list" where
  "statusMap =
     [(''accepted'', ''confirmed''), (''rejected'', ''cancelled''), (''pending'', ''pending''),
      (''paid'', ''confirmed''), (''cancelled'', ''cancelled'')]"

definition acceptedStatuses :: "string list" where
  "acceptedStatuses = [''accepted'', ''rejected'', ''pending'', ''paid'', ''cancelled'']"

definition updateBookingStatus ::
  "oid option \<Rightarrow> string \<Rightarrow> string \<Rightarrow> 'n store \<Rightarrow> 'n response \<times> 'n store" where
  "updateBookingStatus bid status now s =
     (case bid of
        None \<Rightarrow> ((400, Message ''Invalid booking ID''), s)
      | Some i \<Rightarrow>
          if status \<notin> set acceptedStatuses
          then ((400, Message ''Invalid status''), s)
          else
            (case map_of statusMap status of
               None \<Rightarrow> (server_error, s)
             | Some mapped \<Rightarrow>
                 (case updateOne_booking (\<lambda>b. b_id b = i)
                         (\<lambda>b. b\<lparr>b_status := status, b_bookingStatus := mapped,
                                b_updatedAt := now\<rparr>) [] (bookings s) of
                    Inl error \<Rightarrow> (server_error, s)
                  | Inr bs \<Rightarrow>
                      ((200, UpdateResult (matchedCount (\<lambda>b. b_id b = i) (bookings s)) None),
                       s\<lparr>bookings := bs\<rparr>))))"

text \<open>
  POST /payments (lines 435-523). The three writes are separate calls: when the booking
  update is refused by the index, the payment inserted before it stays.
\<close>

definition new_payment ::
  "oid \<Rightarrow> string \<Rightarrow> 'n booking \<Rightarrow> string option \<Rightarrow> 'n \<Rightarrow> string option \<Rightarrow> string \<Rightarrow> 'n payment" where
  "new_payment i email booking transactionId amount paymentMethod paymentDate =
     \<lparr>p_id = i, p_userEmail = email, p_bookingId = b_id booking,
      p_transactionId = transactionId, p_amount = amount,
      p_ticketTitle = b_ticketTitle booking, p_from = b_from booking, p_to = b_to booking,
      p_departureDate = b_departureDate booking, p_departureTime = b_departureTime booking,
      p_seatNumber = b_seatNumber booking, p_bookingReference = b_bookingReference booking,
      p_paymentMethod = or_else paymentMethod ''Credit Card'',
      p_paymentDate = paymentDate, p_status = ''completed'', p_createdAt = paymentDate\<rparr>"

definition mark_paid :: "string option \<Rightarrow> string option \<Rightarrow> string \<Rightarrow> 'n booking \<Rightarrow> 'n booking" where
  "mark_paid transactionId paymentMethod paymentDate b =
     b\<lparr>b_status := ''paid'', b_bookingStatus := ''confirmed'',
       b_transactionId := transactionId,
       b_paymentMethod := Some (or_else paymentMethod ''Credit Card''),
       b_paymentDate := Some paymentDate, b_paidAt := Some paymentDate,
       b_updatedAt := paymentDate\<rparr>"

definition inc_quantity :: "oid \<Rightarrow> ('n::plus) \<Rightarrow> 'n ticket list \<Rightarrow> 'n ticket list" where
  "inc_quantity tid n ts =
     updateOne (\<lambda>t. t_id t = tid) (\<lambda>t. t\<lparr>t_quantity := t_quantity t + n\<rparr>) ts"

definition recordPayment ::
  "string \<Rightarrow> oid option \<Rightarrow> string option \<Rightarrow> ('n::{plus,uminus}) \<Rightarrow> string option \<Rightarrow> string \<Rightarrow> 'n store
     \<Rightarrow> 'n response \<times> 'n store" where
  "recordPayment email bookingId transactionId amount paymentMethod now s =
     (case bookingId of
        None \<Rightarrow> ((400, Message ''Invalid booking ID''), s)
      | Some i \<Rightarrow>
          (case find (\<lambda>b. b_id b = i) (bookings s) of
             None \<Rightarrow> ((404, Message ''Booking not found''), s)
           | Some booking \<Rightarrow>
               if b_status booking = ''paid''
               then ((400, Message ''Booking already paid''), s)
               else if amount \<noteq> b_totalPrice booking
               then ((400, Message ''Payment amount mismatch''), s)
               else
                 let paymentDate = now;
                     payment = new_payment (nextId s) email booking transactionId amount
                                 paymentMethod paymentDate;
                     s1 = s\<lparr>payments := payments s @ [payment], nextId := Suc (nextId s)\<rparr>
                 in (case updateOne_booking (\<lambda>b. b_id b = i)
                           (mark_paid transactionId paymentMethod paymentDate) []
                           (bookings s1) of
                       Inl error \<Rightarrow> (server_error, s1)
                     | Inr bs \<Rightarrow>
                         ((200, Success),
                          s1\<lparr>bookings := bs,
                             tickets := inc_quantity (b_ticketId booking)
                                          (- b_quantity booking) (tickets s1)\<rparr>))))"

text \<open>DELETE /bookings/:id (lines 557-607).\<close>

definition mark_cancelled :: "string \<Rightarrow> 'n booking \<Rightarrow> 'n booking" where
  "mark_cancelled now b =
     b\<lparr>b_status := ''cancelled'', b_bookingStatus := ''cancelled'',
       b_cancelledAt := Some now, b_updatedAt := now\<rparr>"

definition cancelBooking ::
  "string \<Rightarrow> oid option \<Rightarrow> string \<Rightarrow> ('n::plus) store \<Rightarrow> 'n response \<times> 'n store" where
  "cancelBooking email bid now s =
     (case bid of
        None \<Rightarrow> ((400, Message ''Invalid booking ID''), s)
      | Some i \<Rightarrow>
          (case find (\<lambda>b. b_id b = i) (bookings s) of
             None \<Rightarrow> ((404, Message ''Booking not found''), s)
           | Some booking \<Rightarrow>
               if b_userEmail booking \<noteq> email then ((403, Message ''Not authorized''), s)
               else
                 (case updateOne_booking (\<lambda>b. b_id b = i) (mark_cancelled now) []
                         (bookings s) of
                    Inl error \<Rightarrow> (server_error, s)
                  | Inr bs \<Rightarrow>
                      ((200, SuccessMessage ''Booking cancelled successfully''),
                       (if b_status booking = ''paid'' \<or> b_bookingStatus booking = ''confirmed''
                        then s\<lparr>bookings := bs,
                               tickets := inc_quantity (b_ticketId booking)
                                            (b_quantity booking) (tickets s)\<rparr>
                        else s\<lparr>bookings := bs\<rparr>)))))"

text \<open>
  GET /user/transactions (lines 526-554). \<^verbatim>\<open>t.amount || 0\<close> is the amount itself: the
  one falsy amount a payment that passed the amount check can hold is zero.
\<close>

record 'n transaction =
  x_id :: oid
  x_transactionId :: "string option"
  x_ticketTitle :: string
  x_amount :: 'n
  x_paymentDate :: string
  x_status :: string
  x_paymentMethod :: string
  x_bookingReference :: string
  x_from :: string
  x_to :: string
  x_departureDate :: string
  x_seatNumber :: string

definition normalizeTransaction :: "'n payment \<Rightarrow> 'n transaction" where
  "normalizeTransaction t =
     \<lparr>x_id = p_id t, x_transactionId = p_transactionId t,
      x_ticketTitle = or_else (Some (p_ticketTitle t)) ''Ticket Purchase'',
      x_amount = p_amount t,
      x_paymentDate = or_else (Some (p_paymentDate t)) (p_createdAt t),
      x_status = or_else (Some (p_status t)) ''completed'',
      x_paymentMethod = or_else (Some (p_paymentMethod t)) ''N/A'',
      x_bookingReference = p_bookingReference t, x_from = p_from t, x_to = p_to t,
      x_departureDate = p_departureDate t, x_seatNumber = p_seatNumber t\<rparr>"

definition userTransactions :: "string \<Rightarrow> 'n store \<Rightarrow> 'n transaction list" where
  "userTransactions email s =
     map normalizeTransaction
       (rev (sort_key p_paymentDate (filter (\<lambda>p. p_userEmail p = email) (payments s))))"

section \<open>Catalog\<close>

text \<open>
  The public reads (lines 611-677). \<^verbatim>\<open>isHidden: { $ne: true }\<close> matches a document
  whose field is missing or false. A descending sort is the reversed ascending one.
\<close>

definition approved_visible :: "'n ticket \<Rightarrow> bool" where
  "approved_visible t = (t_verificationStatus t = ''approved'' \<and> t_isHidden t \<noteq> Some True)"

definition ticketsAll :: "'n store \<Rightarrow> 'n response" where
  "ticketsAll s =
     (200, TicketDocs (rev (sort_key t_createdAt (filter approved_visible (tickets s)))))"

definition ticketsLatest :: "'n store \<Rightarrow> 'n response" where
  "ticketsLatest s =
     (200, TicketDocs (take 8 (rev (sort_key t_createdAt (filter approved_visible (tickets s))))))"

definition ticketsAdvertisedHome :: "'n store \<Rightarrow> 'n response" where
  "ticketsAdvertisedHome s =
     (200, TicketDocs (take 6
        (filter (\<lambda>t. t_isAdvertised t \<and> t_verificationStatus t = ''approved''
                     \<and> t_isHidden t \<noteq> Some True) (tickets s))))"

definition ticketById :: "oid option \<Rightarrow> 'n store \<Rightarrow> 'n response" where
  "ticketById tid s =
     (case tid of
        None \<Rightarrow> (400, Message ''Invalid ticket ID'')
      | Some i \<Rightarrow>
          (case find (\<lambda>t. t_id t = i) (tickets s) of
             None \<Rightarrow> (400, Message ''Ticket not found'')
           | Some ticket \<Rightarrow> (200, TicketDoc ticket)))"

text \<open>The tickets a response carries.\<close>

fun returned_tickets :: "'n response \<Rightarrow> 'n ticket list" where
  "returned_tickets (code, TicketDocs ts) = ts"
| "returned_tickets (code, TicketDoc t) = [t]"
| "returned_tickets (code, other) = []"

section \<open>Vendor and admin routes on tickets\<close>

record 'n ticketData =
  td_title :: string
  td_from :: string
  td_to :: string
  td_departureDate :: string
  td_departureTime :: string
  td_price :: 'n
  td_quantity :: 'n
  td_isHidden :: "bool option"

text \<open>POST /tickets (lines 681-695), after \<open>verifyVENDOR\<close>.\<close>

definition postTicket :: "string \<Rightarrow> 'n ticketData \<Rightarrow> string \<Rightarrow> 'n store \<Rightarrow> 'n response \<times> 'n store" where
  "postTicket email td now s =
     ((200, InsertResult (nextId s)),
      s\<lparr>tickets := tickets s @
           [\<lparr>t_id = nextId s, t_vendorEmail = email, t_title = td_title td,
             t_from = td_from td, t_to = td_to td, t_departureDate = td_departureDate td,
             t_departureTime = td_departureTime td, t_price = td_price td,
             t_quantity = td_quantity td, t_verificationStatus = ''pending'',
             t_isAdvertised = False, t_isHidden = td_isHidden td, t_createdAt = now\<rparr>],
        nextId := Suc (nextId s)\<rparr>)"

text \<open>
  PATCH /tickets/:id (lines 713-741), after \<open>verifyVENDOR\<close>: \<^verbatim>\<open>$set\<close> of whatever the
  body holds, \<^verbatim>\<open>_id\<close> apart.
\<close>

record 'n ticketPatch =
  tp_vendorEmail :: "string option"
  tp_title :: "string option"
  tp_from :: "string option"
  tp_to :: "string option"
  tp_departureDate :: "string option"
  tp_departureTime :: "string option"
  tp_price :: "'n option"
  tp_quantity :: "'n option"
  tp_verificationStatus :: "string option"
  tp_isAdvertised :: "bool option"
  tp_isHidden :: "bool option"
  tp_createdAt :: "string option"

definition set_opt :: "'a option \<Rightarrow> 'a \<Rightarrow> 'a" where
  "set_opt v old = (case v of None \<Rightarrow> old | Some x \<Rightarrow> x)"

definition set_ticketData :: "'n ticketPatch \<Rightarrow> 'n ticket \<Rightarrow> 'n ticket" where
  "set_ticketData tp t =
     t\<lparr>t_vendorEmail := set_opt (tp_vendorEmail tp) (t_vendorEmail t),
       t_title := set_opt (tp_title tp) (t_title t),
       t_from := set_opt (tp_from tp) (t_from t),
       t_to := set_opt (tp_to tp) (t_to t),
       t_departureDate := set_opt (tp_departureDate tp) (t_departureDate t),
       t_departureTime := set_opt (tp_departureTime tp) (t_departureTime t),
       t_price := set_opt (tp_price tp) (t_price t),
       t_quantity := set_opt (tp_quantity tp) (t_quantity t),
       t_verificationStatus := set_opt (tp_verificationStatus tp) (t_verificationStatus t),
       t_isAdvertised := set_opt (tp_isAdvertised tp) (t_isAdvertised t),
       t_isHidden := (case tp_isHidden tp of None \<Rightarrow> t_isHidden t | Some h \<Rightarrow> Some h),
       t_createdAt := set_opt (tp_createdAt tp) (t_createdAt t)\<rparr>"

definition patchTicket ::
  "string \<Rightarrow> oid option \<Rightarrow> 'n ticketPatch \<Rightarrow> 'n store \<Rightarrow> 'n response \<times> 'n store" where
  "patchTicket email tid tp s =
     (case tid of
        None \<Rightarrow> ((400, Message ''Invalid ticket ID''), s)
      | Some i \<Rightarrow>
          (case find (\<lambda>t. t_id t = i) (tickets s) of
             None \<Rightarrow> ((404, Message ''Ticket not found''), s)
           | Some ticket \<Rightarrow>
               if t_vendorEmail ticket \<noteq> email then ((403, Message ''Not authorized''), s)
               else ((200, UpdateResult 1 None),
                     s\<lparr>tickets := updateOne (\<lambda>t. t_id t = i) (set_ticketData tp) (tickets s)\<rparr>)))"

text \<open>DELETE /tickets/:id (lines 744-769), after \<open>verifyVENDOR\<close>.\<close>

definition deleteTicket :: "string \<Rightarrow> oid option \<Rightarrow> 'n store \<Rightarrow> 'n response \<times> 'n store" where
  "deleteTicket email tid s =
     (case tid of
        None \<Rightarrow> ((400, Message ''Invalid ticket ID''), s)
      | Some i \<Rightarrow>
          (case find (\<lambda>t. t_id t = i) (tickets s) of
             None \<Rightarrow> ((404, Message ''Ticket not found''), s)
           | Some ticket \<Rightarrow>
               if t_vendorEmail ticket \<noteq> email then ((403, Message ''Not authorized''), s)
               else ((200, DeleteResult 1),
                     s\<lparr>tickets := deleteOne (\<lambda>t. t_id t = i) (tickets s)\<rparr>)))"

text \<open>PATCH /admin/tickets/:id/verify (lines 854-880), after \<open>verifyADMIN\<close>.\<close>

definition verdicts :: "string list" where
  "verdicts = [''approved'', ''rejected'']"

definition adminVerifyTicket :: "oid option \<Rightarrow> string \<Rightarrow> 'n store \<Rightarrow> 'n response \<times> 'n store" where
  "adminVerifyTicket tid verificationStatus s =
     (case tid of
        None \<Rightarrow> ((400, Message ''Invalid ticket ID''), s)
      | Some i \<Rightarrow>
          if verificationStatus \<notin> set verdicts
          then ((400, Message ''Invalid stats''), s)
          else ((200, UpdateResult (matchedCount (\<lambda>t. t_id t = i) (tickets s)) None),
                s\<lparr>tickets := updateOne (\<lambda>t. t_id t = i)
                     (\<lambda>t. t\<lparr>t_verificationStatus := verificationStatus\<rparr>) (tickets s)\<rparr>))"

text \<open>PATCH /admin/tickets/advertise/:id (lines 948-982), after \<open>verifyADMIN\<close>.\<close>

definition countAdvertised :: "'n ticket list \<Rightarrow> nat" where
  "countAdvertised ts =
     length (filter (\<lambda>t. t_isAdvertised t \<and> t_verificationStatus t = ''approved'') ts)"

definition toggleAdvertise :: "oid option \<Rightarrow> 'n store \<Rightarrow> 'n response \<times> 'n store" where
  "toggleAdvertise tid s =
     (case tid of
        None \<Rightarrow> ((400, Message ''Invalid id''), s)
      | Some i \<Rightarrow>
          (case find (\<lambda>t. t_id t = i) (tickets s) of
             None \<Rightarrow> ((404, Message ''Ticket not found''), s)
           | Some ticket \<Rightarrow>
               if t_verificationStatus ticket \<noteq> ''approved''
               then ((400, Message ''Only approved tickets can be advertised''), s)
               else if \<not> t_isAdvertised ticket \<and> countAdvertised (tickets s) \<ge> 6
               then ((400, Message ''Max 6 advertised''), s)
               else
                 ((200, Toggled ''Toggled advertise'' (\<not> t_isAdvertised ticket)),
                  s\<lparr>tickets := updateOne (\<lambda>t. t_id t = i)
                       (\<lambda>t. t\<lparr>t_isAdvertised := \<not> t_isAdvertised ticket\<rparr>) (tickets s)\<rparr>)))"

section \<open>The routes that write\<close>

text \<open>
  Every route of \<^verbatim>\<open>src/index.js\<close> that writes to a collection, with the middleware
  chain it is registered with. POST /user is the one route without \<^verbatim>\<open>verifyJWT\<close>.
\<close>

datatype 'n route =
    PostUser userData
  | PutUserProfile profileData bool
  | PostBookings "oid option" 'n "string option" string string
  | PatchBookingStatus "oid option" string
  | PostPayments "oid option" "string option" 'n "string option"
  | DeleteBooking "oid option"
  | PostTickets "'n ticketData"
  | PatchTicket "oid option" "'n ticketPatch"
  | DeleteTicket "oid option"
  | AdminVerifyTicket "oid option" string
  | AdminSetRole string string
  | AdminMarkFraud string
  | AdminToggleAdvertise "oid option"

definition guarded ::
  "'n response option \<Rightarrow> 'n response \<times> 'n store \<Rightarrow> 'n store \<Rightarrow> 'n response \<times> 'n store" where
  "guarded refusal k s = (case refusal of Some r \<Rightarrow> (r, s) | None \<Rightarrow> k)"

fun authenticated ::
  "string \<Rightarrow> string \<Rightarrow> ('n::{plus,uminus,times}) route \<Rightarrow> 'n store
     \<Rightarrow> 'n response \<times> 'n store" where
  "authenticated email now (PostUser ud) s = postUser ud now s"
| "authenticated email now (PutUserProfile pd file) s = putUserProfile email pd file now s"
| "authenticated email now (PostBookings tid quantity seatNumber genSeat genRef) s =
     createBooking email tid quantity seatNumber genSeat genRef now s"
| "authenticated email now (PatchBookingStatus bid status) s =
     updateBookingStatus bid status now s"
| "authenticated email now (PostPayments bid transactionId amount paymentMethod) s =
     recordPayment email bid transactionId amount paymentMethod now s"
| "authenticated email now (DeleteBooking bid) s = cancelBooking email bid now s"
| "authenticated email now (PostTickets td) s =
     guarded (verifyVENDOR email s) (postTicket email td now s) s"
| "authenticated email now (PatchTicket tid tp) s =
     guarded (verifyVENDOR email s) (patchTicket email tid tp s) s"
| "authenticated email now (DeleteTicket tid) s =
     guarded (verifyVENDOR email s) (deleteTicket email tid s) s"
| "authenticated email now (AdminVerifyTicket tid verificationStatus) s =
     guarded (verifyADMIN email s) (adminVerifyTicket tid verificationStatus s) s"
| "authenticated email now (AdminSetRole target role) s =
     guarded (verifyADMIN email s) (adminSetRole target role s) s"
| "authenticated email now (AdminMarkFraud target) s =
     guarded (verifyADMIN email s) (adminMarkFraud target s) s"
| "authenticated email now (AdminToggleAdvertise tid) s =
     guarded (verifyADMIN email s) (toggleAdvertise tid s) s"

definition handle ::
  "string option \<Rightarrow> string \<Rightarrow> ('n::{plus,uminus,times}) route \<Rightarrow> 'n store
     \<Rightarrow> 'n response \<times> 'n store" where
  "handle token now r s =
     (case r of
        PostUser ud \<Rightarrow> postUser ud now s
      | _ \<Rightarrow> (case token of
                None \<Rightarrow> (unauthorized, s)
              | Some email \<Rightarrow> authenticated email now r s))"

text \<open>A sequence of requests, each with its token and its clock reading.\<close>

fun run ::
  "(string option \<times> string \<times> ('n::{plus,uminus,times}) route) list \<Rightarrow> 'n store \<Rightarrow> 'n store" where
  "run [] s = s"
| "run ((token, now, r) # rs) s = run rs (snd (handle token now r s))"

section \<open>Reading the store\<close>

text \<open>The quantity of the ticket \<^verbatim>\<open>findOne\<close> returns for an id, and the requests
  that are POST /payments for a given booking id.\<close>

definition quantity_of :: "oid \<Rightarrow> 'n ticket list \<Rightarrow> 'n option" where
  "quantity_of tid ts = map_option t_quantity (find (\<lambda>t. t_id t = tid) ts)"

definition payment_call :: "oid \<Rightarrow> string option \<times> string \<times> 'n route \<Rightarrow> bool" where
  "payment_call bid c =
     (case snd (snd c) of PostPayments b tx amount pm \<Rightarrow> b = Some bid | _ \<Rightarrow> False)"

text \<open>The store after the payment insert of POST /payments (line 494).\<close>

definition paid_store ::
  "string \<Rightarrow> 'n booking \<Rightarrow> string option \<Rightarrow> 'n \<Rightarrow> string option \<Rightarrow> string \<Rightarrow> 'n store \<Rightarrow> 'n store" where
  "paid_store email b tx amount pm now s =
     s\<lparr>payments := payments s @ [new_payment (nextId s) email b tx amount pm now],
       nextId := Suc (nextId s)\<rparr>"





text \<open>The requests that are PATCH /admin/tickets/advertise/:id, and the tickets the cap
  counts.\<close>

definition toggle_call :: "string option \<times> string \<times> 'n route \<Rightarrow> bool" where
  "toggle_call c = (case snd (snd c) of AdminToggleAdvertise tid \<Rightarrow> True | _ \<Rightarrow> False)"

definition advertised_approved :: "'n ticket \<Rightarrow> bool" where
  "advertised_approved t = (t_isAdvertised t \<and> t_verificationStatus t = ''approved'')"

text \<open>The one route that is an explicit role change, and what it means for a later
  store to keep the roles of the users of an earlier one.\<close>

definition role_change :: "'n route \<Rightarrow> bool" where
  "role_change r = (case r of AdminSetRole target role \<Rightarrow> True | _ \<Rightarrow> False)"

definition roles_kept :: "'n store \<Rightarrow> 'n store \<Rightarrow> bool" where
  "roles_kept s s' =
     (length (users s) \<le> length (users s') \<and>
      map u_role (take (length (users s)) (users s')) = map u_role (users s))"

section \<open>Example data\<close>

text \<open>
  The scenario of the specification, at type \<open>int\<close> (on numbers this small the
  arithmetic of doubles is exact): a ticket of price 20 with 10 places, a booking of 2
  places on seat 1A (total 40), its payment, its cancellation, and the same seat booked
  again. \<open>store_ads\<close> holds six advertised tickets, one that is approved and not
  advertised, one pending and one hidden.
\<close>

definition ticket0 :: "int ticket" where
  "ticket0 =
     \<lparr>t_id = 1, t_vendorEmail = ''vendor@x.com'', t_title = ''Dhaka - Sylhet'',
      t_from = ''Dhaka'', t_to = ''Sylhet'', t_departureDate = ''2026-01-10'',
      t_departureTime = ''10:30 AM'', t_price = 20, t_quantity = 10,
      t_verificationStatus = ''approved'', t_isAdvertised = False, t_isHidden = None,
      t_createdAt = ''2025-12-01''\<rparr>"

definition store0 :: "int store" where
  "store0 = \<lparr>tickets = [ticket0], users = [], bookings = [], payments = [], nextId = 2\<rparr>"

definition booking0 :: "int booking" where
  "booking0 = new_booking 2 ''alice@x.com'' ticket0 2 ''1A'' ''BK1'' ''2025-12-02''"

definition store1 :: "int store" where
  "store1 = store0\<lparr>bookings := [booking0], nextId := 3\<rparr>"

definition store2 :: "int store" where
  "store2 =
     snd (recordPayment ''alice@x.com'' (Some 2) (Some ''tx1'') 40 None ''2025-12-05'' store1)"

definition calls2 :: "(string option \<times> string \<times> int route) list" where
  "calls2 =
     [(Some ''bob@x.com'', ''2025-12-06'', PostPayments (Some 2) (Some ''tx2'') 40 None),
      (Some ''alice@x.com'', ''2025-12-07'', PostPayments (Some 2) (Some ''tx3'') 40 (Some ''Card''))]"




definition admin0 :: user where
  "admin0 = (new_user 100 ''admin@x.com'')\<lparr>u_role := ''admin''\<rparr>"

definition store_ads :: "int store" where
  "store_ads =
     \<lparr>tickets = map (\<lambda>i. ticket0\<lparr>t_id := i, t_isAdvertised := True\<rparr>) [1, 2, 3, 4, 5, 6] @
         [ticket0\<lparr>t_id := 7\<rparr>,
          ticket0\<lparr>t_id := 8, t_verificationStatus := ''pending''\<rparr>,
          ticket0\<lparr>t_id := 9, t_isHidden := Some True\<rparr>],
      users = [admin0], bookings = [], payments = [], nextId = 101\<rparr>"

definition store_off :: "int store" where
  "store_off = snd (toggleAdvertise (Some 1) store_ads)"

definition calls_ads :: "(string option \<times> string \<times> int route) list" where
  "calls_ads =
     [(Some ''admin@x.com'', ''2025-12-10'', AdminToggleAdvertise (Some 7)),
      (Some ''admin@x.com'', ''2025-12-11'', AdminToggleAdvertise (Some 1)),
      (Some ''admin@x.com'', ''2025-12-12'', AdminToggleAdvertise (Some 7)),
      (Some ''admin@x.com'', ''2025-12-13'', AdminToggleAdvertise (Some 1))]"

definition store_u :: "int store" where
  "store_u =
     store0\<lparr>users := [admin0, (new_user 101 ''vera@x.com'')\<lparr>u_role := ''vendor''\<rparr>],
            nextId := 102\<rparr>"

definition body_u :: userData where
  "body_u =
     \<lparr>ud_email = Some ''vera@x.com'', ud_role = Some ''admin'', ud_created_at = None,
      ud_name = Some ''Vera'', ud_image = None\<rparr>"

definition calls_u :: "(string option \<times> string \<times> int route) list" where
  "calls_u =
     [(None, ''2025-12-10'', PostUser body_u),
      (Some ''admin@x.com'', ''2025-12-11'', AdminMarkFraud ''vera@x.com''),
      (None, ''2025-12-12'', PostUser (body_u\<lparr>ud_email := Some ''new@x.com''\<rparr>))]"

section \<open>Facts about the store primitives\<close>

lemma index_keys_Nil: "index_keys [] = []"
  by (simp add: index_keys_def)

lemma index_keys_Cons:
  "index_keys (b # bs) = (if indexed b then index_key b # index_keys bs else index_keys bs)"
  by (simp add: index_keys_def)

lemma index_keys_append: "index_keys (xs @ ys) = index_keys xs @ index_keys ys"
  by (simp add: index_keys_def)

lemma seat_index_ok_replace:
  assumes "seat_index_ok (pre @ b # post)" and "\<not> duplicate_key b' (pre @ post)"
  shows "seat_index_ok (pre @ b' # post)"
  using assms
  by (auto simp: seat_index_ok_def duplicate_key_def index_keys_append index_keys_Cons
      split: if_splits)

lemma updateOne_booking_index:
  "updateOne_booking q f pre bs = Inr bs' \<Longrightarrow> seat_index_ok (pre @ bs) \<Longrightarrow> seat_index_ok bs'"
proof (induction bs arbitrary: pre)
  case Nil
  then show ?case by simp
next
  case (Cons b post)
  show ?case
  proof (cases "q b")
    case True
    with Cons.prems show ?thesis
      by (auto split: if_splits intro: seat_index_ok_replace)
  next
    case False
    with Cons.prems Cons.IH [of "pre @ [b]"] show ?thesis by simp
  qed
qed

lemma insertOne_booking_index:
  "insertOne_booking b bs = Inr bs' \<Longrightarrow> seat_index_ok bs \<Longrightarrow> seat_index_ok bs'"
  by (auto simp: insertOne_booking_def seat_index_ok_def duplicate_key_def index_keys_append
      index_keys_Cons index_keys_Nil split: if_splits)

text \<open>What an indexed update does, seen from the document \<^verbatim>\<open>findOne\<close> returns.\<close>

lemma updateOne_booking_None:
  "find q bs = None \<Longrightarrow> updateOne_booking q f acc bs = Inr (acc @ bs)"
  by (induction bs arbitrary: acc) (auto split: if_splits)

lemma updateOne_booking_Some:
  "find q bs = Some b \<Longrightarrow>
   \<exists>pre post. bs = pre @ b # post \<and> find q pre = None \<and>
     updateOne_booking q f acc bs =
       (if duplicate_key (f b) (acc @ pre @ post) then Inl E11000
        else Inr (acc @ pre @ f b # post))"
proof (induction bs arbitrary: acc)
  case Nil
  then show ?case by simp
next
  case (Cons x xs)
  show ?case
  proof (cases "q x")
    case True
    with Cons.prems have "x = b" by simp
    with True show ?thesis by (intro exI [of _ "[]"] exI [of _ xs]) simp
  next
    case False
    with Cons.prems have "find q xs = Some b" by simp
    from Cons.IH [OF this, of "acc @ [x]"] obtain pre post where
      *: "xs = pre @ b # post" "find q pre = None"
      "updateOne_booking q f (acc @ [x]) xs =
         (if duplicate_key (f b) ((acc @ [x]) @ pre @ post) then Inl E11000
          else Inr ((acc @ [x]) @ pre @ f b # post))"
      by blast
    with False show ?thesis
      by (intro exI [of _ "x # pre"] exI [of _ post]) simp
  qed
qed


lemma find_updateOne:
  "(\<And>d. q (f d) = q d) \<Longrightarrow> find q (updateOne q f ds) = map_option f (find q ds)"
  by (induction ds) auto

lemma find_updateOne_other:
  "(\<And>d. q' (f d) = q' d) \<Longrightarrow> (find q' (updateOne q f ds) = None) = (find q' ds = None)"
  by (induction ds) auto

lemma length_updateOne: "length (updateOne q f ds) = length ds"
  by (induction ds) auto

lemma map_updateOne_frame: "(\<And>d. g (f d) = g d) \<Longrightarrow> map g (updateOne q f ds) = map g ds"
  by (induction ds) auto

section \<open>The seat index is kept by every route\<close>

lemma createBooking_index:
  "seat_index_ok (bookings s) \<Longrightarrow>
   seat_index_ok (bookings (snd (createBooking email tid q seat genSeat genRef now s)))"
  by (auto simp: createBooking_def Let_def dest: insertOne_booking_index
      split: option.splits sum.splits)

lemma updateBookingStatus_index:
  "seat_index_ok (bookings s) \<Longrightarrow>
   seat_index_ok (bookings (snd (updateBookingStatus bid status now s)))"
  by (auto simp: updateBookingStatus_def dest: updateOne_booking_index
      split: option.splits sum.splits)

lemma recordPayment_index:
  "seat_index_ok (bookings s) \<Longrightarrow>
   seat_index_ok (bookings (snd (recordPayment email bid tx amount pm now s)))"
  by (auto simp: recordPayment_def Let_def dest: updateOne_booking_index
      split: option.splits sum.splits)

lemma cancelBooking_index:
  "seat_index_ok (bookings s) \<Longrightarrow>
   seat_index_ok (bookings (snd (cancelBooking email bid now s)))"
  by (auto simp: cancelBooking_def dest: updateOne_booking_index
      split: option.splits sum.splits)

lemma bookings_postUser: "bookings (snd (postUser ud now s)) = bookings s"
  by (simp add: postUser_def Let_def split: option.splits)

lemma bookings_putUserProfile: "bookings (snd (putUserProfile email pd file now s)) = bookings s"
  by (simp add: putUserProfile_def Let_def split: option.splits)

lemma bookings_guarded:
  "bookings (snd k) = bookings s \<Longrightarrow> bookings (snd (guarded refusal k s)) = bookings s"
  by (simp add: guarded_def split: option.splits)

lemma bookings_ticket_routes:
  "bookings (snd (postTicket email td now s)) = bookings s"
  "bookings (snd (patchTicket email tid tp s)) = bookings s"
  "bookings (snd (deleteTicket email tid s)) = bookings s"
  "bookings (snd (adminVerifyTicket tid v s)) = bookings s"
  "bookings (snd (toggleAdvertise tid s)) = bookings s"
  "bookings (snd (adminSetRole target role s)) = bookings s"
  "bookings (snd (adminMarkFraud target s)) = bookings s"
  by (simp_all add: postTicket_def patchTicket_def deleteTicket_def adminVerifyTicket_def
      toggleAdvertise_def adminSetRole_def adminMarkFraud_def split: option.splits)

lemma authenticated_index:
  "seat_index_ok (bookings s) \<Longrightarrow> seat_index_ok (bookings (snd (authenticated email now r s)))"
  by (cases r)
    (simp_all add: createBooking_index updateBookingStatus_index recordPayment_index
      cancelBooking_index bookings_postUser bookings_putUserProfile bookings_guarded
      bookings_ticket_routes)

lemma handle_index:
  "seat_index_ok (bookings s) \<Longrightarrow> seat_index_ok (bookings (snd (handle token now r s)))"
  using authenticated_index [of s _ now r]
  by (cases token; cases r) (simp_all add: handle_def unauthorized_def)

lemma run_index: "seat_index_ok (bookings s) \<Longrightarrow> seat_index_ok (bookings (run reqs s))"
  by (induction reqs arbitrary: s) (auto simp: handle_index)

lemma distinct_filter_eq_le_1: "distinct xs \<Longrightarrow> length (filter (\<lambda>k. k = x) xs) \<le> 1"
  by (induction xs) (auto simp: filter_empty_conv)

lemma seat_index_ok_at_most_one:
  assumes "seat_index_ok bs"
  shows "length (filter (\<lambda>b. indexed b \<and> b_ticketId b = T \<and> b_seatNumber b = S) bs) \<le> 1"
proof -
  have "length (filter (\<lambda>b. indexed b \<and> b_ticketId b = T \<and> b_seatNumber b = S) bs)
      = length (filter (\<lambda>k. k = (T, S)) (index_keys bs))"
    by (induction bs) (auto simp: index_keys_Cons index_keys_Nil index_key_def)
  also have "\<dots> \<le> 1"
    using assms unfolding seat_index_ok_def by (rule distinct_filter_eq_le_1)
  finally show ?thesis .
qed

lemma createBooking_conflict:
  assumes "find (\<lambda>t. t_id t = T) (tickets s) = Some ticket"
    and "list_ex (\<lambda>b. indexed b \<and> b_ticketId b = T \<and> b_seatNumber b = or_else seat genSeat)
           (bookings s)"
  shows "createBooking email (Some T) q seat genSeat genRef now s =
           ((409, Message ''Seat already booked. Please select another seat.''), s)"
proof -
  from assms(1) have T: "t_id ticket = T" by (auto simp: find_Some_iff)
  have "duplicate_key (new_booking (nextId s) email ticket q (or_else seat genSeat) genRef now)
          (bookings s)"
    using assms(2) T
    by (auto simp: duplicate_key_def index_keys_def index_key_def new_booking_def indexed_def
        list_ex_iff image_iff)
  with assms(1) show ?thesis
    by (simp add: createBooking_def Let_def insertOne_booking_def E11000_def bookings_catch_def)
qed

lemma createBooking_free:
  assumes "find (\<lambda>t. t_id t = T) (tickets s) = Some ticket"
    and "(T, or_else seat genSeat) \<notin> set (index_keys (bookings s))"
  shows "createBooking email (Some T) q seat genSeat genRef now s =
           ((201, InsertResult (nextId s)),
            s\<lparr>bookings := bookings s @
                 [new_booking (nextId s) email ticket q (or_else seat genSeat) genRef now],
              nextId := Suc (nextId s)\<rparr>)"
proof -
  from assms(1) have T: "t_id ticket = T" by (auto simp: find_Some_iff)
  have "\<not> duplicate_key (new_booking (nextId s) email ticket q (or_else seat genSeat) genRef now)
          (bookings s)"
    using assms(2) T by (simp add: duplicate_key_def index_key_def new_booking_def)
  with assms(1) show ?thesis
    by (simp add: createBooking_def Let_def insertOne_booking_def)
qed

lemma indexed_mark_cancelled: "\<not> indexed (mark_cancelled now b)"
  by (simp add: indexed_def mark_cancelled_def)

lemma cancelBooking_owner:
  assumes "find (\<lambda>b. b_id b = bid) (bookings s) = Some b" and "b_userEmail b = email"
  shows "\<exists>pre post. bookings s = pre @ b # post \<and> find (\<lambda>b. b_id b = bid) pre = None \<and>
     cancelBooking email (Some bid) now s =
       ((200, SuccessMessage ''Booking cancelled successfully''),
        s\<lparr>bookings := pre @ mark_cancelled now b # post,
          tickets := (if b_status b = ''paid'' \<or> b_bookingStatus b = ''confirmed''
                      then inc_quantity (b_ticketId b) (b_quantity b) (tickets s)
                      else tickets s)\<rparr>)"
proof -
  from updateOne_booking_Some [OF assms(1), of "mark_cancelled now" "[]"]
  obtain pre post where *: "bookings s = pre @ b # post" "find (\<lambda>b. b_id b = bid) pre = None"
    "updateOne_booking (\<lambda>b. b_id b = bid) (mark_cancelled now) [] (bookings s) =
       Inr (pre @ mark_cancelled now b # post)"
    by (auto simp: duplicate_key_def indexed_mark_cancelled)
  have "cancelBooking email (Some bid) now s =
       ((200, SuccessMessage ''Booking cancelled successfully''),
        s\<lparr>bookings := pre @ mark_cancelled now b # post,
          tickets := (if b_status b = ''paid'' \<or> b_bookingStatus b = ''confirmed''
                      then inc_quantity (b_ticketId b) (b_quantity b) (tickets s)
                      else tickets s)\<rparr>)"
    by (simp add: cancelBooking_def assms *(3))
  with *(1,2) show ?thesis by blast
qed

lemma find_inc_quantity:
  "(find (\<lambda>t. t_id t = T) (inc_quantity tid n ts) = None) = (find (\<lambda>t. t_id t = T) ts = None)"
  unfolding inc_quantity_def by (rule find_updateOne_other) simp

lemma cancel_frees_seat:
  assumes ok: "seat_index_ok (bookings s)"
    and b: "find (\<lambda>b. b_id b = bid) (bookings s) = Some b" and ix: "indexed b"
    and t: "find (\<lambda>t. t_id t = b_ticketId b) (tickets s) \<noteq> None"
    and seat: "or_else seat genSeat = b_seatNumber b"
  shows "fst (createBooking email' (Some (b_ticketId b)) q seat genSeat genRef now'
               (snd (cancelBooking (b_userEmail b) (Some bid) now s)))
         = (201, InsertResult (nextId s))"
proof -
  from cancelBooking_owner [OF b refl, of now] obtain pre post where
    *: "bookings s = pre @ b # post"
    and c: "cancelBooking (b_userEmail b) (Some bid) now s =
       ((200, SuccessMessage ''Booking cancelled successfully''),
        s\<lparr>bookings := pre @ mark_cancelled now b # post,
          tickets := (if b_status b = ''paid'' \<or> b_bookingStatus b = ''confirmed''
                      then inc_quantity (b_ticketId b) (b_quantity b) (tickets s)
                      else tickets s)\<rparr>)"
    by blast
  let ?s' = "snd (cancelBooking (b_userEmail b) (Some bid) now s)"
  have free: "(b_ticketId b, or_else seat genSeat) \<notin> set (index_keys (bookings ?s'))"
    using ok ix seat
    by (auto simp: c * seat_index_ok_def index_keys_append index_keys_Cons index_key_def
        indexed_mark_cancelled)
  have "find (\<lambda>t. t_id t = b_ticketId b) (tickets ?s') \<noteq> None"
    using t by (simp add: c find_inc_quantity del: not_None_eq)
  then obtain ticket where "find (\<lambda>t. t_id t = b_ticketId b) (tickets ?s') = Some ticket"
    by blast
  from createBooking_free [OF this free] show ?thesis by (simp add: c)
qed

section \<open>Seat uniqueness\<close>

text \<open>
  Claim C1. In a store that satisfies the seat index, and after any sequence of requests
  from it, at most one booking whose \<open>bookingStatus\<close> is pending or confirmed holds a
  given ticket and seat. A POST /bookings for a seat that such a booking holds is answered
  409 with the seat message, not 500, and leaves the store as it was. Once the holder is
  cancelled, a POST /bookings for the same ticket and seat is answered 201.
\<close>

theorem no_double_booking:
  assumes "seat_index_ok (bookings s)"
  shows "length (filter (\<lambda>b. indexed b \<and> b_ticketId b = T \<and> b_seatNumber b = S)
                  (bookings (run reqs s))) \<le> 1
    \<and> (find (\<lambda>t. t_id t = T) (tickets s) = Some ticket
        \<and> list_ex (\<lambda>b. indexed b \<and> b_ticketId b = T \<and> b_seatNumber b = or_else seat genSeat)
             (bookings s)
        \<longrightarrow> createBooking email (Some T) q seat genSeat genRef now s =
              ((409, Message ''Seat already booked. Please select another seat.''), s))
    \<and> (find (\<lambda>b. b_id b = bid) (bookings s) = Some b \<and> indexed b
        \<and> find (\<lambda>t. t_id t = b_ticketId b) (tickets s) \<noteq> None
        \<and> or_else seat' genSeat' = b_seatNumber b
        \<longrightarrow> fst (createBooking email' (Some (b_ticketId b)) q' seat' genSeat' genRef' now'
                   (snd (cancelBooking (b_userEmail b) (Some bid) now s)))
            = (201, InsertResult (nextId s)))"
proof (intro conjI impI)
  show "length (filter (\<lambda>b. indexed b \<and> b_ticketId b = T \<and> b_seatNumber b = S)
                  (bookings (run reqs s))) \<le> 1"
    by (rule seat_index_ok_at_most_one [OF run_index [OF assms]])
next
  assume "find (\<lambda>t. t_id t = T) (tickets s) = Some ticket
        \<and> list_ex (\<lambda>b. indexed b \<and> b_ticketId b = T \<and> b_seatNumber b = or_else seat genSeat)
             (bookings s)"
  then show "createBooking email (Some T) q seat genSeat genRef now s =
              ((409, Message ''Seat already booked. Please select another seat.''), s)"
    by (intro createBooking_conflict) simp_all
next
  assume "find (\<lambda>b. b_id b = bid) (bookings s) = Some b \<and> indexed b
        \<and> find (\<lambda>t. t_id t = b_ticketId b) (tickets s) \<noteq> None
        \<and> or_else seat' genSeat' = b_seatNumber b"
  then show "fst (createBooking email' (Some (b_ticketId b)) q' seat' genSeat' genRef' now'
                   (snd (cancelBooking (b_userEmail b) (Some bid) now s)))
            = (201, InsertResult (nextId s))"
    by (intro cancel_frees_seat [OF assms]) simp_all
qed

theorem no_double_booking_witness:
  "seat_index_ok (bookings store1)
   \<and> length (filter (\<lambda>b. indexed b \<and> b_ticketId b = 1 \<and> b_seatNumber b = ''1A'')
        (bookings (run [(Some ''bob@x.com'', ''2025-12-03'',
                         PostBookings (Some 1) 1 (Some ''1A'') ''7C'' ''BK2'')] store1))) \<le> 1
   \<and> createBooking ''bob@x.com'' (Some 1) 1 (Some ''1A'') ''7C'' ''BK2'' ''2025-12-03'' store1 =
       ((409, Message ''Seat already booked. Please select another seat.''), store1)
   \<and> fst (createBooking ''bob@x.com'' (Some 1) 1 (Some ''1A'') ''7C'' ''BK2'' ''2025-12-04''
            (snd (cancelBooking ''alice@x.com'' (Some 2) ''2025-12-03'' store1)))
       = (201, InsertResult 3)"
proof -
  have h: "seat_index_ok (bookings store1)"
    by (simp add: store1_def store0_def seat_index_ok_def index_keys_def)
  from no_double_booking [OF h, where T = 1 and S = "''1A''" and ticket = ticket0
      and reqs = "[(Some ''bob@x.com'', ''2025-12-03'',
                         PostBookings (Some 1) 1 (Some ''1A'') ''7C'' ''BK2'')]"
      and seat = "Some ''1A''" and genSeat = "''7C''" and email = "''bob@x.com''" and q = 1
      and genRef = "''BK2''" and now = "''2025-12-03''" and bid = 2 and b = booking0
      and seat' = "Some ''1A''" and genSeat' = "''7C''" and email' = "''bob@x.com''" and q' = 1
      and genRef' = "''BK2''" and now' = "''2025-12-04''"]
  show ?thesis
    using h
    by (simp add: store1_def store0_def booking0_def ticket0_def new_booking_def indexed_def
        or_else_def)
qed

section \<open>Payment recorder\<close>

lemma find_Some_holds: "find q ds = Some d \<Longrightarrow> q d"
  by (auto simp: find_Some_iff)

lemma find_split_hit: "find q pre = None \<Longrightarrow> q d \<Longrightarrow> find q (pre @ d # post) = Some d"
  by (induction pre) (auto split: if_splits)

lemma recordPayment_found:
  assumes "find (\<lambda>b. b_id b = bid) (bookings s) = Some b"
  shows "\<exists>pre post. bookings s = pre @ b # post \<and> find (\<lambda>b. b_id b = bid) pre = None \<and>
     recordPayment email (Some bid) tx amount pm now s =
       (if b_status b = ''paid'' then ((400, Message ''Booking already paid''), s)
        else if amount \<noteq> b_totalPrice b then ((400, Message ''Payment amount mismatch''), s)
        else if duplicate_key (mark_paid tx pm now b) (pre @ post)
        then (server_error, paid_store email b tx amount pm now s)
        else ((200, Success),
              (paid_store email b tx amount pm now s)
                \<lparr>bookings := pre @ mark_paid tx pm now b # post,
                 tickets := inc_quantity (b_ticketId b) (- b_quantity b) (tickets s)\<rparr>))"
proof -
  from updateOne_booking_Some [OF assms, of "mark_paid tx pm now" "[]"]
  obtain pre post where *: "bookings s = pre @ b # post" "find (\<lambda>b. b_id b = bid) pre = None"
    and u: "updateOne_booking (\<lambda>b. b_id b = bid) (mark_paid tx pm now) [] (bookings s) =
       (if duplicate_key (mark_paid tx pm now b) (pre @ post) then Inl E11000
        else Inr (pre @ mark_paid tx pm now b # post))"
    by auto
  have "recordPayment email (Some bid) tx amount pm now s =
       (if b_status b = ''paid'' then ((400, Message ''Booking already paid''), s)
        else if amount \<noteq> b_totalPrice b then ((400, Message ''Payment amount mismatch''), s)
        else if duplicate_key (mark_paid tx pm now b) (pre @ post)
        then (server_error, paid_store email b tx amount pm now s)
        else ((200, Success),
              (paid_store email b tx amount pm now s)
                \<lparr>bookings := pre @ mark_paid tx pm now b # post,
                 tickets := inc_quantity (b_ticketId b) (- b_quantity b) (tickets s)\<rparr>))"
    by (simp add: recordPayment_def assms u Let_def paid_store_def)
  with * show ?thesis by blast
qed

lemma mark_paid_key:
  "index_key (mark_paid tx pm now b) = index_key b" "indexed (mark_paid tx pm now b)"
  "b_id (mark_paid tx pm now b) = b_id b" "b_status (mark_paid tx pm now b) = ''paid''"
  by (simp_all add: mark_paid_def index_key_def indexed_def)

lemma indexed_no_duplicate:
  assumes "seat_index_ok (pre @ b # post)" and "indexed b" and "index_key b' = index_key b"
  shows "\<not> duplicate_key b' (pre @ post)"
  using assms
  by (auto simp: seat_index_ok_def duplicate_key_def index_keys_append index_keys_Cons)

lemma quantity_of_inc:
  "quantity_of T (inc_quantity tid n ts) =
     (if T = tid then map_option (\<lambda>q. q + n) (quantity_of T ts) else quantity_of T ts)"
  by (induction ts) (auto simp: quantity_of_def inc_quantity_def)

lemma find_mark_paid:
  assumes "find (\<lambda>b. b_id b = bid) pre = None" and "b_id b = bid"
  shows "find (\<lambda>b. b_id b = bid) (pre @ mark_paid tx pm now b # post) = Some (mark_paid tx pm now b)"
  using assms by (intro find_split_hit) (simp_all add: mark_paid_key)

text \<open>
  Claim C2. For a booking that exists and is not yet paid, POST /payments with an amount
  other than the booking's \<open>totalPrice\<close> is answered 400 "Payment amount mismatch" and
  the store is left as it was. With the matching amount the payment record is inserted;
  the answer is 200 with the booking marked paid and the ticket quantity lowered, unless
  the seat index refuses the booking update, and it never refuses it for a booking that is
  pending or confirmed.
\<close>

theorem price_integrity:
  assumes "find (\<lambda>b. b_id b = bid) (bookings s) = Some b" and "b_status b \<noteq> ''paid''"
  shows "(amount \<noteq> b_totalPrice b \<longrightarrow>
            recordPayment email (Some bid) tx amount pm now s =
              ((400, Message ''Payment amount mismatch''), s))
     \<and> (amount = b_totalPrice b \<longrightarrow>
            payments (snd (recordPayment email (Some bid) tx amount pm now s)) =
              payments s @ [new_payment (nextId s) email b tx amount pm now]
          \<and> (fst (recordPayment email (Some bid) tx amount pm now s) = (200, Success)
               \<and> find (\<lambda>b. b_id b = bid)
                    (bookings (snd (recordPayment email (Some bid) tx amount pm now s))) =
                   Some (mark_paid tx pm now b)
               \<and> tickets (snd (recordPayment email (Some bid) tx amount pm now s)) =
                   inc_quantity (b_ticketId b) (- b_quantity b) (tickets s)
             \<or> fst (recordPayment email (Some bid) tx amount pm now s) = server_error
               \<and> bookings (snd (recordPayment email (Some bid) tx amount pm now s)) = bookings s
               \<and> tickets (snd (recordPayment email (Some bid) tx amount pm now s)) = tickets s)
          \<and> (seat_index_ok (bookings s) \<and> indexed b \<longrightarrow>
               fst (recordPayment email (Some bid) tx amount pm now s) = (200, Success)))"
proof -
  from recordPayment_found [OF assms(1), of email tx amount pm now] obtain pre post where
    *: "bookings s = pre @ b # post" "find (\<lambda>b. b_id b = bid) pre = None"
    and r: "recordPayment email (Some bid) tx amount pm now s =
       (if b_status b = ''paid'' then ((400, Message ''Booking already paid''), s)
        else if amount \<noteq> b_totalPrice b then ((400, Message ''Payment amount mismatch''), s)
        else if duplicate_key (mark_paid tx pm now b) (pre @ post)
        then (server_error, paid_store email b tx amount pm now s)
        else ((200, Success),
              (paid_store email b tx amount pm now s)
                \<lparr>bookings := pre @ mark_paid tx pm now b # post,
                 tickets := inc_quantity (b_ticketId b) (- b_quantity b) (tickets s)\<rparr>))"
    by blast
  have id: "b_id b = bid" using assms(1) by (rule find_Some_holds)
  have hit: "find (\<lambda>b. b_id b = bid) (pre @ mark_paid tx pm now b # post) =
      Some (mark_paid tx pm now b)"
    by (rule find_mark_paid [OF *(2) id])
  have nodup: "seat_index_ok (bookings s) \<and> indexed b \<Longrightarrow>
      \<not> duplicate_key (mark_paid tx pm now b) (pre @ post)"
    using indexed_no_duplicate [of pre b post "mark_paid tx pm now b"]
    by (simp add: * mark_paid_key)
  show ?thesis
    unfolding r using assms(2) hit nodup by (auto simp: paid_store_def server_error_def)
qed

theorem price_integrity_witness:
  "find (\<lambda>b. b_id b = 2) (bookings store1) = Some booking0 \<and> b_status booking0 \<noteq> ''paid''
   \<and> 39 \<noteq> b_totalPrice booking0
   \<and> recordPayment ''bob@x.com'' (Some 2) (Some ''tx1'') 39 None ''2025-12-05'' store1 =
        ((400, Message ''Payment amount mismatch''), store1)
   \<and> 40 = b_totalPrice booking0
   \<and> fst (recordPayment ''bob@x.com'' (Some 2) (Some ''tx1'') 40 None ''2025-12-05'' store1) =
        (200, Success)"
proof -
  have f: "find (\<lambda>b. b_id b = 2) (bookings store1) = Some booking0"
    by (simp add: store1_def store0_def booking0_def new_booking_def)
  have p: "b_status booking0 \<noteq> ''paid''"
    by (simp add: booking0_def new_booking_def)
  have ix: "seat_index_ok (bookings store1) \<and> indexed booking0"
    by (simp add: store1_def store0_def seat_index_ok_def index_keys_def booking0_def
        new_booking_def indexed_def)
  have t: "b_totalPrice booking0 = 40"
    by (simp add: booking0_def new_booking_def ticket0_def)
  from price_integrity [OF f p, of 39 "''bob@x.com''" "Some ''tx1''" None "''2025-12-05''"]
    price_integrity [OF f p, of 40 "''bob@x.com''" "Some ''tx1''" None "''2025-12-05''"]
  show ?thesis using f p ix t by simp
qed

lemma recordPayment_paid:
  "find (\<lambda>b. b_id b = bid) (bookings s) = Some b \<Longrightarrow> b_status b = ''paid'' \<Longrightarrow>
   recordPayment email (Some bid) tx amount pm now s =
     ((400, Message ''Booking already paid''), s)"
  by (simp add: recordPayment_def)

lemma run_payment_calls_paid:
  assumes "find (\<lambda>b. b_id b = bid) (bookings s) = Some b" and "b_status b = ''paid''"
    and "list_all (payment_call bid) calls"
  shows "run calls s = s"
  using assms(3)
proof (induction calls)
  case Nil
  then show ?case by simp
next
  case (Cons c calls)
  obtain token now r where c: "c = (token, now, r)" by (cases c)
  from Cons.prems obtain tx amount pm where r: "r = PostPayments (Some bid) tx amount pm"
    by (auto simp: c payment_call_def split: route.splits)
  have "snd (handle token now r s) = s"
    by (cases token)
      (simp_all add: r handle_def recordPayment_paid [OF assms(1,2)])
  with Cons show ?case by (simp add: c)
qed

lemma recordPayment_success:
  assumes "recordPayment email (Some bid) tx amount pm now s = ((200, Success), s')"
  shows "\<exists>b pre post. find (\<lambda>b. b_id b = bid) (bookings s) = Some b \<and> b_status b \<noteq> ''paid''
     \<and> amount = b_totalPrice b
     \<and> bookings s = pre @ b # post \<and> find (\<lambda>b. b_id b = bid) pre = None
     \<and> s' = (paid_store email b tx amount pm now s)
                \<lparr>bookings := pre @ mark_paid tx pm now b # post,
                 tickets := inc_quantity (b_ticketId b) (- b_quantity b) (tickets s)\<rparr>"
proof (cases "find (\<lambda>b. b_id b = bid) (bookings s)")
  case None
  with assms show ?thesis by (simp add: recordPayment_def)
next
  case (Some b)
  from recordPayment_found [OF Some, of email tx amount pm now] obtain pre post where
    *: "bookings s = pre @ b # post" "find (\<lambda>b. b_id b = bid) pre = None"
    and r: "recordPayment email (Some bid) tx amount pm now s =
       (if b_status b = ''paid'' then ((400, Message ''Booking already paid''), s)
        else if amount \<noteq> b_totalPrice b then ((400, Message ''Payment amount mismatch''), s)
        else if duplicate_key (mark_paid tx pm now b) (pre @ post)
        then (server_error, paid_store email b tx amount pm now s)
        else ((200, Success),
              (paid_store email b tx amount pm now s)
                \<lparr>bookings := pre @ mark_paid tx pm now b # post,
                 tickets := inc_quantity (b_ticketId b) (- b_quantity b) (tickets s)\<rparr>))"
    by blast
  from assms [unfolded r] have "b_status b \<noteq> ''paid'' \<and> amount = b_totalPrice b
     \<and> s' = (paid_store email b tx amount pm now s)
                \<lparr>bookings := pre @ mark_paid tx pm now b # post,
                 tickets := inc_quantity (b_ticketId b) (- b_quantity b) (tickets s)\<rparr>"
    by (simp add: server_error_def split: if_splits)
  with Some * show ?thesis by blast
qed

text \<open>
  Claim C3. After a POST /payments that settles a booking, every further POST /payments
  for the same booking id is answered 400 "Booking already paid" and changes nothing: the
  whole sequence leaves one payment record more than before for that booking and lowers
  the ticket quantity by the booking's quantity once. In any store, a booking whose
  \<open>status\<close> is paid is refused in the same way.
\<close>

theorem no_double_settlement:
  assumes "recordPayment email (Some bid) tx amount pm now s = ((200, Success), s')"
    and "list_all (payment_call bid) calls"
  shows "(\<exists>b. find (\<lambda>b. b_id b = bid) (bookings s) = Some b
      \<and> recordPayment email2 (Some bid) tx2 amount2 pm2 now2 s' =
          ((400, Message ''Booking already paid''), s')
      \<and> run calls s' = s'
      \<and> payments (run calls s') = payments s @ [new_payment (nextId s) email b tx amount pm now]
      \<and> length (filter (\<lambda>p. p_bookingId p = bid) (payments (run calls s'))) =
          Suc (length (filter (\<lambda>p. p_bookingId p = bid) (payments s)))
      \<and> quantity_of T (tickets (run calls s')) =
          (if T = b_ticketId b then map_option (\<lambda>q. q + - b_quantity b) (quantity_of T (tickets s))
           else quantity_of T (tickets s)))
    \<and> (find (\<lambda>b. b_id b = bid0) (bookings s0) = Some b0 \<and> b_status b0 = ''paid'' \<longrightarrow>
         recordPayment email0 (Some bid0) tx0 amount0 pm0 now0 s0 =
           ((400, Message ''Booking already paid''), s0))"
proof (intro conjI impI)
  from recordPayment_success [OF assms(1)] obtain b pre post where
    b: "find (\<lambda>b. b_id b = bid) (bookings s) = Some b"
    and *: "bookings s = pre @ b # post" "find (\<lambda>b. b_id b = bid) pre = None"
    and s': "s' = (paid_store email b tx amount pm now s)
                \<lparr>bookings := pre @ mark_paid tx pm now b # post,
                 tickets := inc_quantity (b_ticketId b) (- b_quantity b) (tickets s)\<rparr>"
    by blast
  have id: "b_id b = bid" using b by (rule find_Some_holds)
  have hit: "find (\<lambda>b. b_id b = bid) (bookings s') = Some (mark_paid tx pm now b)"
    using find_mark_paid [OF *(2) id] by (simp add: s')
  have paid: "b_status (mark_paid tx pm now b) = ''paid''" by (simp add: mark_paid_key)
  have again: "recordPayment email2 (Some bid) tx2 amount2 pm2 now2 s' =
          ((400, Message ''Booking already paid''), s')"
    by (rule recordPayment_paid [OF hit paid])
  have still: "run calls s' = s'"
    by (rule run_payment_calls_paid [OF hit paid assms(2)])
  have pay: "payments s' = payments s @ [new_payment (nextId s) email b tx amount pm now]"
    by (simp add: s' paid_store_def)
  have cnt: "length (filter (\<lambda>p. p_bookingId p = bid) (payments s')) =
          Suc (length (filter (\<lambda>p. p_bookingId p = bid) (payments s)))"
    by (simp add: pay new_payment_def id)
  have qty: "quantity_of T (tickets s') =
          (if T = b_ticketId b then map_option (\<lambda>q. q + - b_quantity b) (quantity_of T (tickets s))
           else quantity_of T (tickets s))"
    by (simp add: s' quantity_of_inc)
  show "\<exists>b. find (\<lambda>b. b_id b = bid) (bookings s) = Some b
      \<and> recordPayment email2 (Some bid) tx2 amount2 pm2 now2 s' =
          ((400, Message ''Booking already paid''), s')
      \<and> run calls s' = s'
      \<and> payments (run calls s') = payments s @ [new_payment (nextId s) email b tx amount pm now]
      \<and> length (filter (\<lambda>p. p_bookingId p = bid) (payments (run calls s'))) =
          Suc (length (filter (\<lambda>p. p_bookingId p = bid) (payments s)))
      \<and> quantity_of T (tickets (run calls s')) =
          (if T = b_ticketId b then map_option (\<lambda>q. q + - b_quantity b) (quantity_of T (tickets s))
           else quantity_of T (tickets s))"
    unfolding still using b again still pay cnt qty by blast
next
  assume "find (\<lambda>b. b_id b = bid0) (bookings s0) = Some b0 \<and> b_status b0 = ''paid''"
  then have "find (\<lambda>b. b_id b = bid0) (bookings s0) = Some b0" and "b_status b0 = ''paid''"
    by blast+
  then show "recordPayment email0 (Some bid0) tx0 amount0 pm0 now0 s0 =
           ((400, Message ''Booking already paid''), s0)"
    by (rule recordPayment_paid)
qed

lemmas example_defs =
  store1_def store0_def booking0_def ticket0_def new_booking_def

lemma store1_settled:
  "recordPayment ''alice@x.com'' (Some 2) (Some ''tx1'') 40 None ''2025-12-05'' store1 =
     ((200, Success), store2)"
proof -
  have "fst (recordPayment ''alice@x.com'' (Some 2) (Some ''tx1'') 40 None ''2025-12-05'' store1)
      = (200, Success)"
    by (simp add: recordPayment_def example_defs Let_def duplicate_key_def index_keys_def)
  then show ?thesis by (simp add: store2_def prod_eq_iff)
qed

lemma store2_eq:
  "store2 =
     \<lparr>tickets = [ticket0\<lparr>t_quantity := 8\<rparr>], users = [],
      bookings = [mark_paid (Some ''tx1'') None ''2025-12-05'' booking0],
      payments = [new_payment 3 ''alice@x.com'' booking0 (Some ''tx1'') 40 None ''2025-12-05''],
      nextId = 4\<rparr>"
  by (simp add: store2_def recordPayment_def store1_def store0_def Let_def duplicate_key_def
      index_keys_def inc_quantity_def)
    (simp add: booking0_def new_booking_def ticket0_def)

theorem no_double_settlement_witness:
  "recordPayment ''alice@x.com'' (Some 2) (Some ''tx1'') 40 None ''2025-12-05'' store1 =
     ((200, Success), store2)
   \<and> list_all (payment_call 2) calls2
   \<and> recordPayment ''bob@x.com'' (Some 2) (Some ''tx2'') 40 None ''2025-12-06'' store2 =
       ((400, Message ''Booking already paid''), store2)
   \<and> run calls2 store2 = store2
   \<and> length (filter (\<lambda>p. p_bookingId p = 2) (payments (run calls2 store2))) = 1
   \<and> quantity_of 1 (tickets (run calls2 store2)) = Some 8
   \<and> find (\<lambda>b. b_id b = 2) (bookings store2) =
       Some (mark_paid (Some ''tx1'') None ''2025-12-05'' booking0)
   \<and> b_status (mark_paid (Some ''tx1'') None ''2025-12-05'' booking0) = ''paid''
   \<and> recordPayment ''eve@x.com'' (Some 2) None 0 None ''2025-12-07'' store2 =
       ((400, Message ''Booking already paid''), store2)"
proof -
  have c: "list_all (payment_call 2) calls2"
    by (simp add: calls2_def payment_call_def)
  have q: "quantity_of 1 (tickets store1) = Some 10" "payments store1 = []"
    by (simp_all add: quantity_of_def example_defs)
  have b: "find (\<lambda>b. b_id b = 2) (bookings store1) = Some booking0"
    "b_ticketId booking0 = 1" "b_quantity booking0 = 2"
    by (simp_all add: example_defs)
  have f2: "find (\<lambda>b. b_id b = 2) (bookings store2) =
       Some (mark_paid (Some ''tx1'') None ''2025-12-05'' booking0)"
    by (simp add: store2_eq mark_paid_key) (simp add: example_defs)
  have p2: "b_status (mark_paid (Some ''tx1'') None ''2025-12-05'' booking0) = ''paid''"
    by (simp add: mark_paid_key)
  from no_double_settlement [where T = 1
      and ?email2.0 = "''bob@x.com''" and ?tx2.0 = "Some ''tx2''" and ?amount2.0 = 40
      and ?pm2.0 = None and ?now2.0 = "''2025-12-06''", OF store1_settled c, THEN conjunct1]
    no_double_settlement [where ?bid0.0 = 2 and ?s0.0 = store2
      and ?b0.0 = "mark_paid (Some ''tx1'') None ''2025-12-05'' booking0"
      and ?email0.0 = "''eve@x.com''" and ?tx0.0 = None and ?amount0.0 = 0 and ?pm0.0 = None
      and ?now0.0 = "''2025-12-07''", OF store1_settled c, THEN conjunct2]
  show ?thesis using c q b f2 p2 store1_settled by auto
qed

lemma recordPayment_requester:
  "fst (recordPayment r (Some bid) tx amount pm now s) =
   fst (recordPayment r' (Some bid) tx amount pm now s)"
  by (simp add: recordPayment_def Let_def split: option.splits sum.splits)

lemma userTransactions_other:
  "payments s' = payments s @ [p] \<Longrightarrow> p_userEmail p \<noteq> e \<Longrightarrow>
   userTransactions e s' = userTransactions e s"
  by (simp add: userTransactions_def)

lemma userTransactions_own:
  "payments s' = payments s @ [p] \<Longrightarrow> p_userEmail p = e \<Longrightarrow>
   normalizeTransaction p \<in> set (userTransactions e s')"
  by (simp add: userTransactions_def)

text \<open>
  Claim C9. POST /payments never compares the requester with the booking's owner: a
  payment the owner could make succeeds for every requester. The payment record carries
  the requester's email, so it is listed by GET /user/transactions for the requester and
  the owner's list stays as it was when the two differ.
\<close>

theorem payer_need_not_own_booking:
  assumes "find (\<lambda>b. b_id b = bid) (bookings s) = Some b"
    and "fst (recordPayment (b_userEmail b) (Some bid) tx amount pm now s) = (200, Success)"
  shows "fst (recordPayment r (Some bid) tx amount pm now s) = (200, Success)
     \<and> payments (snd (recordPayment r (Some bid) tx amount pm now s)) =
         payments s @ [new_payment (nextId s) r b tx amount pm now]
     \<and> p_userEmail (new_payment (nextId s) r b tx amount pm now) = r
     \<and> normalizeTransaction (new_payment (nextId s) r b tx amount pm now)
         \<in> set (userTransactions r (snd (recordPayment r (Some bid) tx amount pm now s)))
     \<and> (r \<noteq> b_userEmail b \<longrightarrow>
          userTransactions (b_userEmail b) (snd (recordPayment r (Some bid) tx amount pm now s)) =
          userTransactions (b_userEmail b) s)"
proof -
  let ?R = "recordPayment r (Some bid) tx amount pm now s"
  let ?p = "new_payment (nextId s) r b tx amount pm now"
  have ok: "fst ?R = (200, Success)"
    using assms(2) recordPayment_requester [of r bid tx amount pm now s "b_userEmail b"] by simp
  then have "?R = ((200, Success), snd ?R)" by (simp add: prod_eq_iff)
  from recordPayment_success [OF this] assms(1)
  have pay: "payments (snd ?R) = payments s @ [?p]"
    by (auto simp: paid_store_def)
  have mail: "p_userEmail ?p = r" by (simp add: new_payment_def)
  show ?thesis
    using ok pay mail userTransactions_own [OF pay mail] userTransactions_other [OF pay]
    by simp
qed

theorem payer_need_not_own_booking_witness:
  "find (\<lambda>b. b_id b = 2) (bookings store1) = Some booking0
   \<and> b_userEmail booking0 = ''alice@x.com''
   \<and> fst (recordPayment ''alice@x.com'' (Some 2) (Some ''tx1'') 40 None ''2025-12-05'' store1) =
       (200, Success)
   \<and> fst (recordPayment ''bob@x.com'' (Some 2) (Some ''tx1'') 40 None ''2025-12-05'' store1) =
       (200, Success)
   \<and> normalizeTransaction (new_payment 3 ''bob@x.com'' booking0 (Some ''tx1'') 40 None ''2025-12-05'')
       \<in> set (userTransactions ''bob@x.com''
            (snd (recordPayment ''bob@x.com'' (Some 2) (Some ''tx1'') 40 None ''2025-12-05'' store1)))
   \<and> userTransactions ''alice@x.com''
         (snd (recordPayment ''bob@x.com'' (Some 2) (Some ''tx1'') 40 None ''2025-12-05'' store1)) = []"
proof -
  have f: "find (\<lambda>b. b_id b = 2) (bookings store1) = Some booking0"
    by (simp add: example_defs)
  have o: "b_userEmail booking0 = ''alice@x.com''" by (simp add: example_defs)
  have a: "fst (recordPayment (b_userEmail booking0) (Some 2) (Some ''tx1'') 40 None
                  ''2025-12-05'' store1) = (200, Success)"
    by (simp add: o store1_settled)
  have n: "nextId store1 = 3" "userTransactions ''alice@x.com'' store1 = []"
    by (simp_all add: example_defs userTransactions_def)
  from payer_need_not_own_booking [OF f a, of "''bob@x.com''"]
  show ?thesis using f o a n by simp
qed

section \<open>Quantity at booking time\<close>







section \<open>Cancellation\<close>

lemma mark_cancelled_fields:
  "b_id (mark_cancelled now b) = b_id b" "b_userEmail (mark_cancelled now b) = b_userEmail b"
  "b_status (mark_cancelled now b) = ''cancelled''"
  "b_bookingStatus (mark_cancelled now b) = ''cancelled''"
  "b_ticketId (mark_cancelled now b) = b_ticketId b"
  "b_quantity (mark_cancelled now b) = b_quantity b"
  by (simp_all add: mark_cancelled_def)

text \<open>
  Claim C4. DELETE /bookings/:id by the booking's owner answers 200 and leaves the booking
  cancelled in both status fields. If the booking was paid or confirmed before, the
  quantity of the ticket it refers to grows by the booking's quantity and no other ticket
  changes; otherwise (a pending booking) the tickets are left as they were. Cancelling the
  same booking again changes no ticket.
\<close>

theorem cancellation_reconciliation:
  assumes f: "find (\<lambda>b. b_id b = bid) (bookings s) = Some b" and own: "b_userEmail b = email"
  shows "fst (cancelBooking email (Some bid) now s) =
           (200, SuccessMessage ''Booking cancelled successfully'')
     \<and> find (\<lambda>b. b_id b = bid) (bookings (snd (cancelBooking email (Some bid) now s))) =
         Some (mark_cancelled now b)
     \<and> b_bookingStatus (mark_cancelled now b) = ''cancelled''
     \<and> b_status (mark_cancelled now b) = ''cancelled''
     \<and> (b_status b = ''paid'' \<or> b_bookingStatus b = ''confirmed'' \<longrightarrow>
          quantity_of T (tickets (snd (cancelBooking email (Some bid) now s))) =
            (if T = b_ticketId b
             then map_option (\<lambda>n. n + b_quantity b) (quantity_of T (tickets s))
             else quantity_of T (tickets s)))
     \<and> (b_status b \<noteq> ''paid'' \<and> b_bookingStatus b \<noteq> ''confirmed'' \<longrightarrow>
          tickets (snd (cancelBooking email (Some bid) now s)) = tickets s)
     \<and> tickets (snd (cancelBooking email (Some bid) now'
                        (snd (cancelBooking email (Some bid) now s)))) =
         tickets (snd (cancelBooking email (Some bid) now s))"
proof -
  let ?s' = "snd (cancelBooking email (Some bid) now s)"
  from cancelBooking_owner [OF f own, of now] obtain pre post where
    pre: "find (\<lambda>b. b_id b = bid) pre = None"
    and c: "cancelBooking email (Some bid) now s =
       ((200, SuccessMessage ''Booking cancelled successfully''),
        s\<lparr>bookings := pre @ mark_cancelled now b # post,
          tickets := (if b_status b = ''paid'' \<or> b_bookingStatus b = ''confirmed''
                      then inc_quantity (b_ticketId b) (b_quantity b) (tickets s)
                      else tickets s)\<rparr>)"
    by blast
  have id: "b_id b = bid" using f by (rule find_Some_holds)
  have f': "find (\<lambda>b. b_id b = bid) (bookings ?s') = Some (mark_cancelled now b)"
    using find_split_hit [OF pre, of "mark_cancelled now b" post]
    by (simp add: c mark_cancelled_fields id)
  from cancelBooking_owner [OF f', of email now'] obtain pre' post' where
    c': "cancelBooking email (Some bid) now' ?s' =
       ((200, SuccessMessage ''Booking cancelled successfully''),
        ?s'\<lparr>bookings := pre' @ mark_cancelled now' (mark_cancelled now b) # post',
          tickets := (if b_status (mark_cancelled now b) = ''paid''
                         \<or> b_bookingStatus (mark_cancelled now b) = ''confirmed''
                      then inc_quantity (b_ticketId (mark_cancelled now b))
                             (b_quantity (mark_cancelled now b)) (tickets ?s')
                      else tickets ?s')\<rparr>)"
    by (auto simp: mark_cancelled_fields own)
  have again: "tickets (snd (cancelBooking email (Some bid) now' ?s')) = tickets ?s'"
    unfolding c' by (simp add: mark_cancelled_fields)
  show ?thesis
    using f' again by (auto simp: c mark_cancelled_fields quantity_of_inc)
qed

theorem cancellation_reconciliation_witness:
  "find (\<lambda>b. b_id b = 2) (bookings store2) = Some (mark_paid (Some ''tx1'') None ''2025-12-05'' booking0)
   \<and> b_userEmail (mark_paid (Some ''tx1'') None ''2025-12-05'' booking0) = ''alice@x.com''
   \<and> b_status (mark_paid (Some ''tx1'') None ''2025-12-05'' booking0) = ''paid''
   \<and> quantity_of 1 (tickets store2) = Some 8
   \<and> quantity_of 1 (tickets (snd (cancelBooking ''alice@x.com'' (Some 2) ''2025-12-08'' store2))) =
       Some 10
   \<and> quantity_of 1 (tickets (snd (cancelBooking ''alice@x.com'' (Some 2) ''2025-12-09''
         (snd (cancelBooking ''alice@x.com'' (Some 2) ''2025-12-08'' store2))))) = Some 10
   \<and> find (\<lambda>b. b_id b = 2) (bookings store1) = Some booking0
   \<and> b_userEmail booking0 = ''alice@x.com''
   \<and> b_status booking0 \<noteq> ''paid'' \<and> b_bookingStatus booking0 \<noteq> ''confirmed''
   \<and> tickets (snd (cancelBooking ''alice@x.com'' (Some 2) ''2025-12-08'' store1)) = tickets store1"
proof -
  let ?b = "mark_paid (Some ''tx1'') None ''2025-12-05'' booking0"
  have f2: "find (\<lambda>b. b_id b = 2) (bookings store2) = Some ?b"
    by (simp add: store2_eq mark_paid_key) (simp add: example_defs)
  have o2: "b_userEmail ?b = ''alice@x.com''"
    by (simp add: mark_paid_def example_defs)
  have v2: "b_status ?b = ''paid''" "b_ticketId ?b = 1" "b_quantity ?b = 2"
    "quantity_of 1 (tickets store2) = Some 8"
    by (simp_all add: mark_paid_def example_defs store2_eq quantity_of_def)
  have f1: "find (\<lambda>b. b_id b = 2) (bookings store1) = Some booking0"
    by (simp add: example_defs)
  have o1: "b_userEmail booking0 = ''alice@x.com''" by (simp add: example_defs)
  have v1: "b_status booking0 \<noteq> ''paid'' \<and> b_bookingStatus booking0 \<noteq> ''confirmed''"
    by (simp add: example_defs)
  from cancellation_reconciliation [OF f2 o2, of "''2025-12-08''" 1 "''2025-12-09''"]
    cancellation_reconciliation [OF f1 o1, of "''2025-12-08''" 1 "''2025-12-09''"]
  show ?thesis using f2 o2 v2 f1 o1 v1 by auto
qed

section \<open>Status updates\<close>


























section \<open>Advertise cap\<close>

lemma countAdvertised_alt: "countAdvertised ts = length (filter advertised_approved ts)"
  by (simp add: countAdvertised_def advertised_approved_def [abs_def])

lemma countAdvertised_updateOne:
  "find q ts = Some t \<Longrightarrow>
   countAdvertised (updateOne q f ts) + (if advertised_approved t then 1 else 0) =
   countAdvertised ts + (if advertised_approved (f t) then 1 else 0)"
  by (induction ts) (auto simp: countAdvertised_alt split: if_splits)

lemma toggleAdvertise_cap:
  assumes "countAdvertised (tickets s) \<le> 6"
  shows "countAdvertised (tickets (snd (toggleAdvertise tid s))) \<le> 6"
proof (cases tid)
  case None
  with assms show ?thesis by (simp add: toggleAdvertise_def)
next
  case (Some i)
  show ?thesis
  proof (cases "find (\<lambda>t. t_id t = i) (tickets s)")
    case None
    with assms Some show ?thesis by (simp add: toggleAdvertise_def)
  next
    case (Some t)
    note cnt = countAdvertised_updateOne [OF Some,
        of "\<lambda>x. x\<lparr>t_isAdvertised := \<not> t_isAdvertised t\<rparr>"]
    show ?thesis
      using assms cnt
      by (auto simp: toggleAdvertise_def \<open>tid = Some i\<close> Some advertised_approved_def
          split: if_splits)
  qed
qed

lemma run_toggles_cap:
  "countAdvertised (tickets s) \<le> 6 \<Longrightarrow> list_all toggle_call reqs \<Longrightarrow>
   countAdvertised (tickets (run reqs s)) \<le> 6"
proof (induction reqs arbitrary: s)
  case Nil
  then show ?case by simp
next
  case (Cons c reqs)
  obtain token now r where c: "c = (token, now, r)" by (cases c)
  from Cons.prems(2) obtain tid where r: "r = AdminToggleAdvertise tid"
    by (auto simp: c toggle_call_def split: route.splits)
  have "countAdvertised (tickets (snd (handle token now r s))) \<le> 6"
    using Cons.prems(1) toggleAdvertise_cap [OF Cons.prems(1), of tid]
    by (cases token) (simp_all add: r handle_def guarded_def split: option.splits)
  with Cons show ?case by (simp add: c)
qed

text \<open>
  Claim C5. PATCH /admin/tickets/advertise/:id refuses a ticket that is not approved;
  refuses to switch a ticket on when six or more tickets are advertised and approved;
  switches it on, adding one to the count, when fewer are; and always switches an
  advertised approved ticket off. From a store with at most six advertised approved
  tickets, every sequence of toggle requests, run one after the other, ends with at most
  six.
\<close>

theorem advertise_cap:
  "(find (\<lambda>t. t_id t = tid) (tickets s) = Some t \<and> t_verificationStatus t \<noteq> ''approved'' \<longrightarrow>
      toggleAdvertise (Some tid) s =
        ((400, Message ''Only approved tickets can be advertised''), s))
   \<and> (find (\<lambda>t. t_id t = tid) (tickets s) = Some t \<and> t_verificationStatus t = ''approved''
       \<and> \<not> t_isAdvertised t \<and> 6 \<le> countAdvertised (tickets s) \<longrightarrow>
      toggleAdvertise (Some tid) s = ((400, Message ''Max 6 advertised''), s))
   \<and> (find (\<lambda>t. t_id t = tid) (tickets s) = Some t \<and> t_verificationStatus t = ''approved''
       \<and> \<not> t_isAdvertised t \<and> countAdvertised (tickets s) < 6 \<longrightarrow>
      fst (toggleAdvertise (Some tid) s) = (200, Toggled ''Toggled advertise'' True)
      \<and> countAdvertised (tickets (snd (toggleAdvertise (Some tid) s))) =
          Suc (countAdvertised (tickets s)))
   \<and> (find (\<lambda>t. t_id t = tid) (tickets s) = Some t \<and> t_verificationStatus t = ''approved''
       \<and> t_isAdvertised t \<longrightarrow>
      fst (toggleAdvertise (Some tid) s) = (200, Toggled ''Toggled advertise'' False)
      \<and> find (\<lambda>t. t_id t = tid) (tickets (snd (toggleAdvertise (Some tid) s))) =
          Some (t\<lparr>t_isAdvertised := False\<rparr>))
   \<and> (countAdvertised (tickets s) \<le> 6 \<and> list_all toggle_call reqs \<longrightarrow>
      countAdvertised (tickets (run reqs s)) \<le> 6)"
proof (intro conjI impI)
  assume "countAdvertised (tickets s) \<le> 6 \<and> list_all toggle_call reqs"
  then show "countAdvertised (tickets (run reqs s)) \<le> 6"
    using run_toggles_cap by blast
next
  assume a: "find (\<lambda>t. t_id t = tid) (tickets s) = Some t \<and> t_verificationStatus t = ''approved''
       \<and> \<not> t_isAdvertised t \<and> countAdvertised (tickets s) < 6"
  then have f: "find (\<lambda>t. t_id t = tid) (tickets s) = Some t" by simp
  from a show "fst (toggleAdvertise (Some tid) s) = (200, Toggled ''Toggled advertise'' True)"
    by (simp add: toggleAdvertise_def)
  from a countAdvertised_updateOne [OF f, of "\<lambda>x. x\<lparr>t_isAdvertised := \<not> t_isAdvertised t\<rparr>"]
  show "countAdvertised (tickets (snd (toggleAdvertise (Some tid) s))) =
          Suc (countAdvertised (tickets s))"
    by (simp add: toggleAdvertise_def advertised_approved_def)
next
  assume a: "find (\<lambda>t. t_id t = tid) (tickets s) = Some t \<and> t_verificationStatus t = ''approved''
       \<and> t_isAdvertised t"
  then show "fst (toggleAdvertise (Some tid) s) = (200, Toggled ''Toggled advertise'' False)"
    by (simp add: toggleAdvertise_def)
  from a show "find (\<lambda>t. t_id t = tid) (tickets (snd (toggleAdvertise (Some tid) s))) =
          Some (t\<lparr>t_isAdvertised := False\<rparr>)"
    by (simp add: toggleAdvertise_def find_updateOne)
qed (simp_all add: toggleAdvertise_def)

lemma store_ads_facts:
  "find (\<lambda>t. t_id t = 8) (tickets store_ads) =
     Some (ticket0\<lparr>t_id := 8, t_verificationStatus := ''pending''\<rparr>)"
  "find (\<lambda>t. t_id t = 7) (tickets store_ads) = Some (ticket0\<lparr>t_id := 7\<rparr>)"
  "find (\<lambda>t. t_id t = 1) (tickets store_ads) =
     Some (ticket0\<lparr>t_id := 1, t_isAdvertised := True\<rparr>)"
  "countAdvertised (tickets store_ads) = 6"
  by (simp_all add: store_ads_def ticket0_def countAdvertised_def)

lemma store_off_facts:
  "find (\<lambda>t. t_id t = 7) (tickets store_off) = Some (ticket0\<lparr>t_id := 7\<rparr>)"
  "countAdvertised (tickets store_off) = 5"
  by (simp_all add: store_off_def toggleAdvertise_def store_ads_def ticket0_def
      countAdvertised_def)

theorem advertise_cap_witness:
  "find (\<lambda>t. t_id t = 8) (tickets store_ads) =
     Some (ticket0\<lparr>t_id := 8, t_verificationStatus := ''pending''\<rparr>)
   \<and> toggleAdvertise (Some 8) store_ads =
       ((400, Message ''Only approved tickets can be advertised''), store_ads)
   \<and> countAdvertised (tickets store_ads) = 6
   \<and> toggleAdvertise (Some 7) store_ads = ((400, Message ''Max 6 advertised''), store_ads)
   \<and> fst (toggleAdvertise (Some 1) store_ads) = (200, Toggled ''Toggled advertise'' False)
   \<and> countAdvertised (tickets store_off) = 5
   \<and> fst (toggleAdvertise (Some 7) store_off) = (200, Toggled ''Toggled advertise'' True)
   \<and> countAdvertised (tickets (snd (toggleAdvertise (Some 7) store_off))) = 6
   \<and> list_all toggle_call calls_ads
   \<and> countAdvertised (tickets (run calls_ads store_ads)) \<le> 6"
proof -
  have c: "list_all toggle_call calls_ads"
    by (simp add: calls_ads_def toggle_call_def)
  have v: "t_verificationStatus (ticket0\<lparr>t_id := 8, t_verificationStatus := ''pending''\<rparr>)
             \<noteq> ''approved''"
    "t_verificationStatus (ticket0\<lparr>t_id := 7\<rparr>) = ''approved''"
    "\<not> t_isAdvertised (ticket0\<lparr>t_id := 7\<rparr>)"
    "t_verificationStatus (ticket0\<lparr>t_id := 1, t_isAdvertised := True\<rparr>) = ''approved''"
    "t_isAdvertised (ticket0\<lparr>t_id := 1, t_isAdvertised := True\<rparr>)"
    by (simp_all add: ticket0_def)
  from advertise_cap [where s = store_ads and tid = 8 and reqs = calls_ads
      and t = "ticket0\<lparr>t_id := 8, t_verificationStatus := ''pending''\<rparr>"]
    advertise_cap [where s = store_ads and tid = 7 and reqs = calls_ads
      and t = "ticket0\<lparr>t_id := 7\<rparr>"]
    advertise_cap [where s = store_ads and tid = 1 and reqs = calls_ads
      and t = "ticket0\<lparr>t_id := 1, t_isAdvertised := True\<rparr>"]
    advertise_cap [where s = store_off and tid = 7 and reqs = "[]"
      and t = "ticket0\<lparr>t_id := 7\<rparr>"]
  show ?thesis
    using c v store_ads_facts store_off_facts by simp
qed

section \<open>Roles\<close>

lemma roles_kept_refl: "roles_kept s s"
  by (simp add: roles_kept_def)

lemma roles_kept_trans: "roles_kept s s' \<Longrightarrow> roles_kept s' s'' \<Longrightarrow> roles_kept s s''"
proof -
  assume a: "roles_kept s s'" and b: "roles_kept s' s''"
  let ?n = "length (users s)"
  have "map u_role (take ?n (users s'')) = take ?n (map u_role (take (length (users s')) (users s'')))"
    using a by (simp add: roles_kept_def take_map min_def)
  also have "\<dots> = take ?n (map u_role (users s'))"
    using b by (simp add: roles_kept_def)
  also have "\<dots> = map u_role (users s)"
    using a by (simp add: roles_kept_def take_map)
  finally show ?thesis using a b by (simp add: roles_kept_def)
qed

lemma roles_kept_users: "users s' = users s \<Longrightarrow> roles_kept s s'"
  by (simp add: roles_kept_def)

lemma map_updateOne_found:
  "find q ds = Some d \<Longrightarrow> g (f d) = g d \<Longrightarrow> map g (updateOne q f ds) = map g ds"
  by (induction ds) (auto split: if_splits)

lemma find_updateOne_hit:
  "find q ds = Some d \<Longrightarrow> q (f d) \<Longrightarrow> find q (updateOne q f ds) = Some (f d)"
  by (induction ds) (auto split: if_splits)

lemma set_userData_fields:
  "u_role (set_userData email role created_at last_loggedIn ud u) = role"
  "u_email (set_userData email role created_at last_loggedIn ud u) = email"
  by (simp_all add: set_userData_def)

lemma roles_kept_updateOne:
  "(\<And>u. u_role (f u) = u_role u) \<Longrightarrow> roles_kept s (s\<lparr>users := updateOne q f (users s)\<rparr>)"
  by (simp add: roles_kept_def length_updateOne map_updateOne_frame)

lemma postUser_existing:
  assumes f: "find (\<lambda>u. u_email u = email) (users s) = Some u"
    and e: "ud_email ud = Some email" "email \<noteq> []"
  shows "map u_role (users (snd (postUser ud now s))) = map u_role (users s)"
    and "find (\<lambda>u. u_email u = email) (users (snd (postUser ud now s))) =
           Some (set_userData email (u_role u) (or_else (ud_created_at ud) now) now ud u)"
proof -
  have p: "postUser ud now s =
      ((200, UpdateResult 1 None),
       s\<lparr>users := updateOne (\<lambda>u. u_email u = email)
          (set_userData email (u_role u) (or_else (ud_created_at ud) now) now ud) (users s)\<rparr>)"
    using f e by (simp add: postUser_def truthy_def or_else_def Let_def)
  show "map u_role (users (snd (postUser ud now s))) = map u_role (users s)"
    by (simp add: p map_updateOne_found [OF f] set_userData_fields)
  show "find (\<lambda>u. u_email u = email) (users (snd (postUser ud now s))) =
           Some (set_userData email (u_role u) (or_else (ud_created_at ud) now) now ud u)"
    by (simp add: p find_updateOne_hit [OF f] set_userData_fields)
qed

lemma postUser_roles: "roles_kept s (snd (postUser ud now s))"
proof (cases "truthy (ud_email ud)")
  case False
  then show ?thesis by (simp add: postUser_def roles_kept_refl)
next
  case True
  then obtain email where e: "ud_email ud = Some email" "email \<noteq> []"
    by (auto simp: truthy_def split: option.splits)
  show ?thesis
  proof (cases "find (\<lambda>u. u_email u = email) (users s)")
    case None
    with True e show ?thesis
      by (simp add: postUser_def or_else_def Let_def roles_kept_def)
  next
    case (Some u)
    from postUser_existing(1) [OF Some e, of now] show ?thesis
      using True e Some
      by (simp add: roles_kept_def postUser_def or_else_def Let_def length_updateOne)
  qed
qed



lemma putUserProfile_roles: "roles_kept s (snd (putUserProfile email pd file now s))"
  by (simp add: putUserProfile_def Let_def roles_kept_refl roles_kept_updateOne
      split: option.splits)

lemma adminMarkFraud_roles: "roles_kept s (snd (adminMarkFraud target s))"
  by (simp add: adminMarkFraud_def roles_kept_def length_updateOne map_updateOne_frame)

lemma users_booking_routes:
  "users (snd (createBooking email tid q seat genSeat genRef now s)) = users s"
  "users (snd (updateBookingStatus bid status now s)) = users s"
  "users (snd (recordPayment email bid tx amount pm now s)) = users s"
  "users (snd (cancelBooking email bid now s)) = users s"
  by (simp_all add: createBooking_def updateBookingStatus_def recordPayment_def
      cancelBooking_def Let_def split: option.splits sum.splits)

lemma users_ticket_routes:
  "users (snd (postTicket email td now s)) = users s"
  "users (snd (patchTicket email tid tp s)) = users s"
  "users (snd (deleteTicket email tid s)) = users s"
  "users (snd (adminVerifyTicket tid v s)) = users s"
  "users (snd (toggleAdvertise tid s)) = users s"
  by (simp_all add: postTicket_def patchTicket_def deleteTicket_def adminVerifyTicket_def
      toggleAdvertise_def split: option.splits)

lemma roles_kept_guarded:
  "roles_kept s (snd k) \<Longrightarrow> roles_kept s (snd (guarded refusal k s))"
  by (simp add: guarded_def roles_kept_refl split: option.splits)

lemma authenticated_roles:
  "\<not> role_change r \<Longrightarrow> roles_kept s (snd (authenticated email now r s))"
  by (cases r)
    (simp_all add: role_change_def postUser_roles putUserProfile_roles adminMarkFraud_roles
      roles_kept_guarded roles_kept_users users_booking_routes users_ticket_routes)

lemma handle_roles: "\<not> role_change r \<Longrightarrow> roles_kept s (snd (handle token now r s))"
  using authenticated_roles [of r s _ now]
  by (cases token; cases r)
    (simp_all add: handle_def unauthorized_def roles_kept_refl postUser_roles)

lemma run_roles:
  "list_all (\<lambda>c. \<not> role_change (snd (snd c))) reqs \<Longrightarrow> roles_kept s (run reqs s)"
proof (induction reqs arbitrary: s)
  case Nil
  then show ?case by (simp add: roles_kept_refl)
next
  case (Cons c reqs)
  obtain token now r where c: "c = (token, now, r)" by (cases c)
  from Cons.prems have "\<not> role_change r" by (simp add: c)
  from handle_roles [OF this, of s token now] Cons.IH [of "snd (handle token now r s)"]
    Cons.prems
  show ?case by (auto simp: c intro: roles_kept_trans)
qed

text \<open>
  Claim C6. POST /user for an email already in the user collection leaves the role of every
  stored user as it was, whatever role the body carries, and the user found under that
  email afterwards has the role it had. More generally, after any sequence of requests none
  of which is PATCH /admin/users/:email/role, every user that was in the store has the role
  it had.
\<close>

theorem role_preservation:
  "(find (\<lambda>u. u_email u = email) (users s) = Some u \<and> ud_email ud = Some email \<and> email \<noteq> []
      \<longrightarrow> map u_role (users (snd (postUser ud now s))) = map u_role (users s)
        \<and> map_option u_role (find (\<lambda>u. u_email u = email) (users (snd (postUser ud now s)))) =
            Some (u_role u))
   \<and> (list_all (\<lambda>c. \<not> role_change (snd (snd c))) reqs
      \<longrightarrow> length (users s) \<le> length (users (run reqs s))
        \<and> map u_role (take (length (users s)) (users (run reqs s))) = map u_role (users s))"
proof (intro conjI impI)
  assume a: "find (\<lambda>u. u_email u = email) (users s) = Some u \<and> ud_email ud = Some email
     \<and> email \<noteq> []"
  then have f: "find (\<lambda>u. u_email u = email) (users s) = Some u"
    and e: "ud_email ud = Some email" "email \<noteq> []" by simp_all
  show "map u_role (users (snd (postUser ud now s))) = map u_role (users s)"
    by (rule postUser_existing(1) [OF f e])
  show "map_option u_role (find (\<lambda>u. u_email u = email) (users (snd (postUser ud now s)))) =
            Some (u_role u)"
    by (simp add: postUser_existing(2) [OF f e] set_userData_fields)
next
  assume "list_all (\<lambda>c. \<not> role_change (snd (snd c))) reqs"
  from run_roles [OF this, of s]
  show "length (users s) \<le> length (users (run reqs s))"
    and "map u_role (take (length (users s)) (users (run reqs s))) = map u_role (users s)"
    by (simp_all add: roles_kept_def)
qed

theorem role_preservation_witness:
  "find (\<lambda>u. u_email u = ''vera@x.com'') (users store_u) =
     Some ((new_user 101 ''vera@x.com'')\<lparr>u_role := ''vendor''\<rparr>)
   \<and> ud_email body_u = Some ''vera@x.com'' \<and> ud_role body_u = Some ''admin''
   \<and> map u_role (users (snd (postUser body_u ''2025-12-10'' store_u))) = [''admin'', ''vendor'']
   \<and> map_option u_role
        (find (\<lambda>u. u_email u = ''vera@x.com'') (users (snd (postUser body_u ''2025-12-10'' store_u))))
       = Some ''vendor''
   \<and> list_all (\<lambda>c. \<not> role_change (snd (snd c))) calls_u
   \<and> map u_role (take 2 (users (run calls_u store_u))) = [''admin'', ''vendor'']"
proof -
  have f: "find (\<lambda>u. u_email u = ''vera@x.com'') (users store_u) =
     Some ((new_user 101 ''vera@x.com'')\<lparr>u_role := ''vendor''\<rparr>)"
    by (simp add: store_u_def store0_def admin0_def new_user_def)
  have b: "ud_email body_u = Some ''vera@x.com''" "ud_role body_u = Some ''admin''"
    by (simp_all add: body_u_def)
  have c: "list_all (\<lambda>c. \<not> role_change (snd (snd c))) calls_u"
    by (simp add: calls_u_def role_change_def)
  have r: "map u_role (users store_u) = [''admin'', ''vendor'']" "length (users store_u) = 2"
    by (simp_all add: store_u_def store0_def admin0_def new_user_def)
  from role_preservation [where s = store_u and email = "''vera@x.com''" and ud = body_u
      and u = "(new_user 101 ''vera@x.com'')\<lparr>u_role := ''vendor''\<rparr>" and reqs = calls_u
      and now = "''2025-12-10''"]
  show ?thesis using f b c r by simp
qed

section \<open>Public catalog\<close>

text \<open>The three list routes return approved, visible tickets only.\<close>

lemma catalog_lists_filtered:
  "t \<in> set (returned_tickets (ticketsAll s)) \<Longrightarrow> approved_visible t"
  "t \<in> set (returned_tickets (ticketsLatest s)) \<Longrightarrow> approved_visible t"
  "t \<in> set (returned_tickets (ticketsAdvertisedHome s)) \<Longrightarrow> approved_visible t"
proof -
  show "t \<in> set (returned_tickets (ticketsAll s)) \<Longrightarrow> approved_visible t"
    by (simp add: ticketsAll_def)
  show "t \<in> set (returned_tickets (ticketsLatest s)) \<Longrightarrow> approved_visible t"
    by (auto simp: ticketsLatest_def dest!: in_set_takeD)
  show "t \<in> set (returned_tickets (ticketsAdvertisedHome s)) \<Longrightarrow> approved_visible t"
    by (auto simp: ticketsAdvertisedHome_def approved_visible_def dest!: in_set_takeD)
qed

text \<open>
  Claim C8. GET /tickets/:id has no filter: it returns the ticket the id finds, here a
  ticket still pending verification and a ticket hidden by the fraud action, neither of
  which the list routes would return.
\<close>

theorem ticketById_returns_unapproved:
  "returned_tickets (ticketById (Some 8) store_ads) =
     [ticket0\<lparr>t_id := 8, t_verificationStatus := ''pending''\<rparr>]
   \<and> \<not> approved_visible (ticket0\<lparr>t_id := 8, t_verificationStatus := ''pending''\<rparr>)
   \<and> returned_tickets (ticketById (Some 9) store_ads) =
     [ticket0\<lparr>t_id := 9, t_isHidden := Some True\<rparr>]
   \<and> \<not> approved_visible (ticket0\<lparr>t_id := 9, t_isHidden := Some True\<rparr>)"
  by (simp add: ticketById_def store_ads_def ticket0_def approved_visible_def)

end
